theory Spec2Isabelle
  imports Main "HOL-Library.Sublist"
begin

unbundle bit_operations_syntax

section \<open>Python text and values\<close>

text \<open>
  A Python \<open>str\<close> is modelled as an Isabelle \<open>string\<close> whose characters are the code
  points below 256. Under that reading \<open>\d\<close> is an ASCII digit and \<open>str.isspace\<close>
  holds for the twelve characters listed in \<open>isspace\<close>.
\<close>

datatype error =
    FileNotFoundError | IsADirectoryError | NotADirectoryError | FileExistsError
  | UnicodeDecodeError | UnpicklingError | ClientError | ValueError
  | AttributeError | TypeError

definition isdigit :: "char \<Rightarrow> bool" where
  "isdigit c = (c \<in> set ''0123456789'')"

definition isspace :: "char \<Rightarrow> bool" where
  "isspace c = (c \<in> set [CHR 0x09, CHR 0x0A, CHR 0x0B, CHR 0x0C, CHR 0x0D, CHR 0x1C,
                           CHR 0x1D, CHR 0x1E, CHR 0x1F, CHR 0x20, CHR 0x85, CHR 0xA0])"

text \<open>\<open>str.split()\<close> with no argument: the maximal runs of non-whitespace.\<close>

fun split_from :: "string \<Rightarrow> string \<Rightarrow> string list" where
  "split_from cur [] = (if cur = [] then [] else [rev cur])"
| "split_from cur (c # s) =
     (if isspace c then (if cur = [] then split_from [] s else rev cur # split_from [] s)
      else split_from (c # cur) s)"

definition str_split :: "string \<Rightarrow> string list" where
  "str_split s = split_from [] s"

text \<open>\<open>str(n)\<close> for an integer, and \<open>int(s)\<close> for a string of decimal digits.\<close>

definition digit_char :: "nat \<Rightarrow> char" where
  "digit_char n = ''0123456789'' ! n"

fun digits :: "nat \<Rightarrow> string" where
  "digits n = (if n < 10 then [digit_char n] else digits (n div 10) @ [digit_char (n mod 10)])"

declare digits.simps [simp del]

definition str_int :: "int \<Rightarrow> string" where
  "str_int i = (if i < 0 then CHR ''-'' # digits (nat (- i)) else digits (nat i))"

definition digit_val :: "char \<Rightarrow> nat" where
  "digit_val c = of_char c - 48"

definition py_int :: "string \<Rightarrow> error + int" where
  "py_int s =
     (if s \<noteq> [] \<and> list_all isdigit s
      then Inr (int (foldl (\<lambda>a c. 10 * a + digit_val c) 0 s))
      else Inl ValueError)"

text \<open>
  \<open>repr\<close> of a string: single quotes unless the text has a single quote and no double
  quote; the quote and the backslash are escaped, tab, newline and carriage return are
  written \<open>\t\<close>, \<open>\n\<close>, \<open>\r\<close>, and the other non-printable code points as \<open>\xNN\<close>.
\<close>

definition hexdigit :: "nat \<Rightarrow> char" where
  "hexdigit n = ''0123456789abcdef'' ! n"

definition printable :: "char \<Rightarrow> bool" where
  "printable c = (let n = (of_char c :: nat) in
     (32 \<le> n \<and> n < 127) \<or> (161 \<le> n \<and> n \<noteq> 173))"

definition repr_char :: "char \<Rightarrow> char \<Rightarrow> string" where
  "repr_char q c =
     (if c = q \<or> c = CHR 0x5C then [CHR 0x5C, c]
      else if c = CHR 0x09 then [CHR 0x5C, CHR ''t'']
      else if c = CHR 0x0A then [CHR 0x5C, CHR ''n'']
      else if c = CHR 0x0D then [CHR 0x5C, CHR ''r'']
      else if printable c then [c]
      else [CHR 0x5C, CHR ''x'', hexdigit (of_char c div 16), hexdigit (of_char c mod 16)])"

definition repr_quote :: "string \<Rightarrow> char" where
  "repr_quote s = (if CHR 0x27 \<in> set s \<and> CHR 0x22 \<notin> set s then CHR 0x22 else CHR 0x27)"

definition repr_str :: "string \<Rightarrow> string" where
  "repr_str s = (let q = repr_quote s in q # concat (map (repr_char q) s) @ [q])"

text \<open>The values the client puts into query parameters: integers and strings.\<close>

datatype pyval = PInt int | PStr string

fun repr_val :: "pyval \<Rightarrow> string" where
  "repr_val (PInt i) = str_int i"
| "repr_val (PStr s) = repr_str s"

fun join_str :: "string \<Rightarrow> string list \<Rightarrow> string" where
  "join_str sep [] = []"
| "join_str sep [x] = x"
| "join_str sep (x # y # ys) = x @ sep @ join_str sep (y # ys)"

text \<open>
  \<open>str\<close> of a dict, as an f-string formats it: the items in insertion order. A dict
  is an association list in insertion order with distinct keys.
\<close>

type_synonym params = "(string \<times> pyval) list"

definition str_item :: "string \<times> pyval \<Rightarrow> string" where
  "str_item kv = repr_str (fst kv) @ '': '' @ repr_val (snd kv)"

definition str_dict :: "params \<Rightarrow> string" where
  "str_dict ps = ''{'' @ join_str '', '' (map str_item ps) @ ''}''"

text \<open>\<open>str.encode()\<close>: UTF-8, one byte below 128 and two bytes from 128 to 255.\<close>

definition encode_char :: "char \<Rightarrow> nat list" where
  "encode_char c = (let n = (of_char c :: nat) in
     if n < 128 then [n] else [192 + n div 64, 128 + n mod 64])"

definition encode :: "string \<Rightarrow> nat list" where
  "encode s = concat (map encode_char s)"

text \<open>\<open>posixpath.join\<close>.\<close>

fun posixpath_join :: "string \<Rightarrow> string list \<Rightarrow> string" where
  "posixpath_join path [] = path"
| "posixpath_join path (b # p) =
     posixpath_join
       (if take 1 b = ''/'' then b
        else if path = [] \<or> last path = CHR ''/'' then path @ b
        else path @ ''/'' @ b) p"

section \<open>\<open>hashlib.sha1\<close>\<close>

text \<open>
  SHA-1 over a list of bytes. The 32-bit words are natural numbers below \<open>2 ^ 32\<close>;
  the additions and the left shifts are cut to 32 bits with a mask.
\<close>

definition add32 :: "nat \<Rightarrow> nat \<Rightarrow> nat" where
  "add32 a b = (a + b) AND 4294967295"

definition rotl :: "nat \<Rightarrow> nat \<Rightarrow> nat" where
  "rotl n x = ((x * 2 ^ n) AND 4294967295) OR drop_bit (32 - n) x"

fun be32 :: "nat list \<Rightarrow> nat list" where
  "be32 (a # b # c # d # rest) = (((a * 256 + b) * 256 + c) * 256 + d) # be32 rest"
| "be32 _ = []"

fun count_from :: "int \<Rightarrow> 'a list \<Rightarrow> int" where
  "count_from n [] = n"
| "count_from n (x # xs) = count_from (n + 1) xs"

fun zeros :: "nat \<Rightarrow> nat list" where
  "zeros n = (if n = 0 then [] else 0 # zeros (n - 1))"

declare zeros.simps [simp del]

definition be64_bytes :: "nat \<Rightarrow> nat list" where
  "be64_bytes n = map (\<lambda>i. drop_bit (8 * i) n AND 255) [7, 6, 5, 4, 3, 2, 1, 0]"

definition sha1_pad :: "nat list \<Rightarrow> nat list" where
  "sha1_pad m = (let n = nat (count_from 0 m) in
     m @ [128] @ zeros ((119 - n mod 64) mod 64) @ be64_bytes (8 * n))"

text \<open>The message schedule, newest word first.\<close>

fun schedule :: "nat \<Rightarrow> nat list \<Rightarrow> nat list" where
  "schedule k ws =
     (if k = 0 then ws
      else schedule (k - 1) (rotl 1 (ws ! 2 XOR ws ! 7 XOR ws ! 13 XOR ws ! 15) # ws))"

declare schedule.simps [simp del]

definition sha1_f :: "nat \<Rightarrow> nat \<Rightarrow> nat \<Rightarrow> nat \<Rightarrow> nat" where
  "sha1_f t b c d =
     (if t < 20 then (b AND c) OR ((4294967295 - b) AND d)
      else if t < 40 then b XOR c XOR d
      else if t < 60 then (b AND c) OR (b AND d) OR (c AND d)
      else b XOR c XOR d)"

definition sha1_k :: "nat \<Rightarrow> nat" where
  "sha1_k t =
     (if t < 20 then 0x5A827999 else if t < 40 then 0x6ED9EBA1
      else if t < 60 then 0x8F1BBCDC else 0xCA62C1D6)"

fun rounds :: "nat \<Rightarrow> nat list \<Rightarrow> nat list \<Rightarrow> nat list" where
  "rounds t (w # ws) [a, b, c, d, e] =
     rounds (t + 1) ws
       [add32 (add32 (add32 (add32 (rotl 5 a) (sha1_f t b c d)) e) (sha1_k t)) w,
        a, rotl 30 b, c, d]"
| "rounds t ws s = s"

definition compress :: "nat list \<Rightarrow> nat list \<Rightarrow> nat list" where
  "compress h blk = map2 add32 h (rounds 0 (rev (schedule 64 (rev blk))) h)"

fun blocks :: "nat list \<Rightarrow> nat list \<Rightarrow> nat list" where
  "blocks h (w # ws) = blocks (compress h (take 16 (w # ws))) (drop 16 (w # ws))"
| "blocks h [] = h"

definition sha1 :: "nat list \<Rightarrow> nat list" where
  "sha1 m = blocks [0x67452301, 0xEFCDAB89, 0x98BADCFE, 0x10325476, 0xC3D2E1F0]
                   (be32 (sha1_pad m))"

definition hex32 :: "nat \<Rightarrow> string" where
  "hex32 w = map (\<lambda>i. hexdigit (drop_bit (4 * i) w AND 15)) [7, 6, 5, 4, 3, 2, 1, 0]"

definition hexdigest :: "nat list \<Rightarrow> string" where
  "hexdigest ws = concat (map hex32 ws)"

section \<open>Regular expressions\<close>

text \<open>
  The fragment of Python's \<open>re\<close> that the client's patterns use, with its
  backtracking order: an alternation tries its left branch first, \<open>+\<close> is greedy.
  \<open>rmatch\<close> lists the ways a pattern matches at a position, best first; a match
  state is the offset from the start of the text, the text left, and the groups
  captured so far.
\<close>

datatype atom = Chr char | Cls "char list" | Dot

fun atom_ok :: "atom \<Rightarrow> char \<Rightarrow> bool" where
  "atom_ok (Chr c) x = (x = c)"
| "atom_ok (Cls cs) x = (x \<in> set cs)"
| "atom_ok Dot x = (x \<noteq> CHR 0x0A)"

datatype regex =
    Eps | Atom atom | Plus atom | Seq regex regex | Alt regex regex | Grp regex | Bol | Eol

type_synonym mstate = "nat \<times> string \<times> string list"

fun greedy :: "atom \<Rightarrow> nat \<Rightarrow> string \<Rightarrow> string list \<Rightarrow> mstate list" where
  "greedy a n [] caps = []"
| "greedy a n (c # s) caps =
     (if atom_ok a c then greedy a (n + 1) s caps @ [(n + 1, s, caps)] else [])"

fun rmatch :: "regex \<Rightarrow> mstate \<Rightarrow> mstate list" where
  "rmatch Eps st = [st]"
| "rmatch (Atom a) (n, s, caps) =
     (case s of [] \<Rightarrow> [] | c # s' \<Rightarrow> if atom_ok a c then [(n + 1, s', caps)] else [])"
| "rmatch (Plus a) (n, s, caps) = greedy a n s caps"
| "rmatch (Seq r1 r2) st = concat (map (\<lambda>st'. rmatch r2 st') (rmatch r1 st))"
| "rmatch (Alt r1 r2) st = rmatch r1 st @ rmatch r2 st"
| "rmatch (Grp r) (n, s, caps) =
     map (\<lambda>(n', s', caps'). (n', s', caps' @ [take (n' - n) s])) (rmatch r (n, s, caps))"
| "rmatch Bol (n, s, caps) = (if n = 0 then [(n, s, caps)] else [])"
| "rmatch Eol (n, s, caps) = (if s = [] \<or> s = [CHR 0x0A] then [(n, s, caps)] else [])"

text \<open>\<open>re.search\<close>: the first match at the leftmost position that has one; its groups.\<close>

fun search_from :: "regex \<Rightarrow> nat \<Rightarrow> string \<Rightarrow> string list option" where
  "search_from r n [] =
     (case rmatch r (n, [], []) of [] \<Rightarrow> None | st # _ \<Rightarrow> Some (snd (snd st)))"
| "search_from r n (c # s) =
     (case rmatch r (n, c # s, []) of
        [] \<Rightarrow> search_from r (n + 1) s
      | st # _ \<Rightarrow> Some (snd (snd st)))"

definition re_search :: "regex \<Rightarrow> string \<Rightarrow> string list option" where
  "re_search r s = search_from r 0 s"

definition seqs :: "regex list \<Rightarrow> regex" where
  "seqs rs = foldr Seq rs Eps"

definition alts :: "regex \<Rightarrow> regex list \<Rightarrow> regex" where
  "alts r rs = foldl Alt r rs"

definition lit :: "string \<Rightarrow> regex" where
  "lit s = seqs (map (\<lambda>c. Atom (Chr c)) s)"

definition digit :: atom where
  "digit = Cls ''0123456789''"

definition space :: atom where
  "space = Cls [CHR 0x09, CHR 0x0A, CHR 0x0B, CHR 0x0C, CHR 0x0D, CHR 0x1C,
                CHR 0x1D, CHR 0x1E, CHR 0x1F, CHR 0x20, CHR 0x85, CHR 0xA0]"

text \<open>\<^verbatim>\<open>(\d{4} GMT .+):$\<close>\<close>

definition caption_re :: regex where
  "caption_re =
     seqs [Grp (seqs [Atom digit, Atom digit, Atom digit, Atom digit, lit '' GMT '', Plus Dot]),
           lit '':'', Eol]"

text \<open>\<^verbatim>\<open>([\d\.]+ [NS]) ([\d\.]+ [EW])\<close>\<close>

definition lat_long_re :: regex where
  "lat_long_re =
     seqs [Grp (seqs [Plus (Cls ''0123456789.''), lit '' '', Atom (Cls ''NS'')]),
           lit '' '',
           Grp (seqs [Plus (Cls ''0123456789.''), lit '' '', Atom (Cls ''EW'')])]"

text \<open>\<^verbatim>\<open>(\d+ deg)\<close>\<close>

definition deg_re :: regex where
  "deg_re = Grp (seqs [Plus digit, lit '' deg''])"

text \<open>\<^verbatim>\<open>station_page.php\?station=(\d+)$\<close>: the dot is not escaped.\<close>

definition station_href_re :: regex where
  "station_href_re =
     seqs [lit ''station_page'', Atom Dot, lit ''php?station='', Grp (Plus digit), Eol]"

text \<open>\<^verbatim>\<open>^Wave Height\<close> and the four other label patterns.\<close>

definition label_re :: "string \<Rightarrow> regex" where
  "label_re l = Seq Bol (lit l)"

section \<open>\<open>datetime\<close>\<close>

record datetime =
  year :: nat
  month :: nat
  day :: nat
  hour :: nat
  minute :: nat

definition is_leap :: "nat \<Rightarrow> bool" where
  "is_leap y = (y mod 4 = 0 \<and> (y mod 100 \<noteq> 0 \<or> y mod 400 = 0))"

definition days_in_month :: "nat \<Rightarrow> nat \<Rightarrow> nat" where
  "days_in_month y m =
     (if m = 2 then (if is_leap y then 29 else 28)
      else if m \<in> {4, 6, 9, 11} then 30 else 31)"

definition ci :: "string \<Rightarrow> string \<Rightarrow> regex" where
  "ci lower upper = seqs (map2 (\<lambda>a b. Atom (Cls [a, b])) lower upper)"

text \<open>
  The pattern that \<open>_strptime\<close> compiles from \<^verbatim>\<open>%H%M %Z on %m/%d/%Y\<close>, matched
  ignoring case: blanks of the format become \<^verbatim>\<open>\s+\<close>, and \<^verbatim>\<open>%Z\<close> accepts the
  names \<open>utc\<close> and \<open>gmt\<close> (the process's own zone is taken to be UTC).
\<close>

definition strptime_re :: regex where
  "strptime_re =
     seqs [Grp (alts (Seq (lit ''2'') (Atom (Cls ''0123''))) [Seq (Atom (Cls ''01'')) (Atom digit), Atom digit]),
           Grp (Alt (Seq (Atom (Cls ''012345'')) (Atom digit)) (Atom digit)),
           Plus space,
           Grp (Alt (ci ''utc'' ''UTC'') (ci ''gmt'' ''GMT'')),
           Plus space, ci ''on'' ''ON'', Plus space,
           Grp (alts (Seq (lit ''1'') (Atom (Cls ''012'')))
                  [Seq (lit ''0'') (Atom (Cls ''123456789'')), Atom (Cls ''123456789'')]),
           lit ''/'',
           Grp (alts (Seq (lit ''3'') (Atom (Cls ''01'')))
                  [Seq (Atom (Cls ''12'')) (Atom digit), Seq (lit ''0'') (Atom (Cls ''123456789'')),
                   Atom (Cls ''123456789''), Seq (lit '' '') (Atom (Cls ''123456789''))]),
           lit ''/'',
           Grp (seqs [Atom digit, Atom digit, Atom digit, Atom digit])]"

definition to_nat :: "string \<Rightarrow> nat" where
  "to_nat s = foldl (\<lambda>a c. 10 * a + digit_val c) 0 (filter isdigit s)"

text \<open>
  \<open>datetime.datetime.strptime(s, "%H%M %Z on %m/%d/%Y")\<close>: the pattern must match
  at the start and use up the text, and the date must exist; otherwise \<open>ValueError\<close>.
\<close>

definition strptime :: "string \<Rightarrow> error + datetime" where
  "strptime s =
     (case rmatch strptime_re (0, s, []) of
        [] \<Rightarrow> Inl ValueError
      | (n, rest, caps) # _ \<Rightarrow>
          if rest \<noteq> [] then Inl ValueError
          else (case caps of
                  [H, M, Z, m, d, Y] \<Rightarrow>
                    if to_nat Y < 1 \<or> days_in_month (to_nat Y) (to_nat m) < to_nat d
                    then Inl ValueError
                    else Inr \<lparr>year = to_nat Y, month = to_nat m, day = to_nat d,
                              hour = to_nat H, minute = to_nat M\<rparr>
                | _ \<Rightarrow> Inl ValueError))"

text \<open>
  \<open>datetime.timestamp()\<close> of a naive value, in a process whose zone is UTC: the
  seconds since 1970, and the way an f-string prints that float.
\<close>

definition days_before_year :: "nat \<Rightarrow> int" where
  "days_before_year y = (let p = int y - 1 in p * 365 + p div 4 - p div 100 + p div 400)"

definition days_before_month :: "nat \<Rightarrow> nat \<Rightarrow> int" where
  "days_before_month y m = int (sum_list (map (days_in_month y) [1..<m]))"

definition posix_timestamp :: "datetime \<Rightarrow> int" where
  "posix_timestamp t =
     (days_before_year (year t) + days_before_month (year t) (month t) + int (day t) - 719163) * 86400
       + int (hour t) * 3600 + int (minute t) * 60"

definition str_timestamp :: "datetime \<Rightarrow> string" where
  "str_timestamp t = str_int (posix_timestamp t) @ ''.0''"

section \<open>The parsed page\<close>

text \<open>
  What \<open>BeautifulSoup(html, features="lxml")\<close> builds: a tree of tags (name,
  attributes, contents) and text. The soup itself is the root tag. The parser is a
  parameter of the model (the field \<open>lxml\<close> of the world); the client only walks
  the tree.
\<close>

datatype node = Tag string "(string \<times> string) list" "node list" | Text string

fun get_text :: "node \<Rightarrow> string" where
  "get_text (Text s) = s"
| "get_text (Tag n as cs) = concat (map get_text cs)"

text \<open>The elements below a node in document order, each with its parent.\<close>

fun descendants :: "node \<Rightarrow> (node \<times> node) list" where
  "descendants (Text s) = []"
| "descendants (Tag n as cs) = concat (map (\<lambda>c. (Tag n as cs, c) # descendants c) cs)"

fun tag_name :: "node \<Rightarrow> string option" where
  "tag_name (Tag n as cs) = Some n"
| "tag_name (Text s) = None"

fun get_attr :: "node \<Rightarrow> string \<Rightarrow> string option" where
  "get_attr (Tag n as cs) k = map_of as k"
| "get_attr (Text s) k = None"

text \<open>\<open>findAll(name)\<close> and \<open>find(name, attrs)\<close>; the parent comes with each hit.\<close>

definition findAll :: "string \<Rightarrow> (node \<Rightarrow> bool) \<Rightarrow> node \<Rightarrow> (node \<times> node) list" where
  "findAll nm p soup = filter (\<lambda>(parent, el). tag_name el = Some nm \<and> p el) (descendants soup)"

definition find_first :: "string \<Rightarrow> (node \<Rightarrow> bool) \<Rightarrow> node \<Rightarrow> (node \<times> node) option" where
  "find_first nm p soup = (case findAll nm p soup of [] \<Rightarrow> None | x # _ \<Rightarrow> Some x)"

text \<open>\<open>findAll("a", href=True)\<close>, each anchor with its parent and its \<open>href\<close>.\<close>

definition anchors :: "node \<Rightarrow> (node \<times> string) list" where
  "anchors soup =
     List.map_filter
       (\<lambda>(parent, el). case get_attr el ''href'' of None \<Rightarrow> None | Some h \<Rightarrow> Some (parent, h))
       (findAll ''a'' (\<lambda>el. True) soup)"

text \<open>The attribute \<open>class\<close> is a list of words; one of them has to be the marker.\<close>

definition has_class :: "string \<Rightarrow> node \<Rightarrow> bool" where
  "has_class c el =
     (case get_attr el ''class'' of None \<Rightarrow> False | Some v \<Rightarrow> c \<in> set (str_split v))"

definition has_id :: "string \<Rightarrow> node \<Rightarrow> bool" where
  "has_id i el = (get_attr el ''id'' = Some i)"

section \<open>The records of the client\<close>

record Station =
  id' :: int
  name :: string
  rss :: string
  latitude :: string
  longitude :: string

record StationReport =
  timestamp :: datetime
  wave_height :: "string list option"
  wave_dominant_period :: "string list option"
  wave_average_period :: "string list option"
  wave_mean_degrees :: "string list option"
  water_temperature :: "string list option"

datatype pyobj = PStation Station | PReport StationReport

section \<open>The world: files, directories, the remote service\<close>

text \<open>
  A file holds text or a pickled object. Paths are the strings the client builds,
  relative to the working directory, which always exists. \<open>remote\<close> is what the
  service answers to a GET; \<open>requests\<close> counts the GETs sent.
\<close>

datatype file_data = TextFile string | PickleFile pyobj

datatype net_result = ClientFailure | Response int string

record world =
  files :: "string \<rightharpoonup> file_data"
  dirs :: "string set"
  remote :: "string \<Rightarrow> params \<Rightarrow> net_result"
  requests :: nat
  lxml :: "string \<Rightarrow> node"

definition posix_dirname :: "string \<Rightarrow> string" where
  "posix_dirname p = rev (drop 1 (dropWhile (\<lambda>c. c \<noteq> CHR ''/'') (rev p)))"

definition is_dir :: "world \<Rightarrow> string \<Rightarrow> bool" where
  "is_dir w d = (d = [] \<or> d = ''.'' \<or> d \<in> dirs w)"

definition path_exists :: "world \<Rightarrow> string \<Rightarrow> bool" where
  "path_exists w p = (is_dir w p \<or> files w p \<noteq> None)"

text \<open>The error of a path whose directory is not there, if any.\<close>

definition parent_error :: "world \<Rightarrow> string \<Rightarrow> error option" where
  "parent_error w p =
     (let d = posix_dirname p in
      if is_dir w d then None
      else if files w d \<noteq> None then Some NotADirectoryError
      else Some FileNotFoundError)"

definition fs_read :: "string \<Rightarrow> world \<Rightarrow> error + file_data" where
  "fs_read p w =
     (case parent_error w p of
        Some e \<Rightarrow> Inl e
      | None \<Rightarrow>
          if is_dir w p then Inl IsADirectoryError
          else (case files w p of None \<Rightarrow> Inl FileNotFoundError | Some d \<Rightarrow> Inr d))"

definition fs_write :: "string \<Rightarrow> file_data \<Rightarrow> world \<Rightarrow> error + world" where
  "fs_write p d w =
     (case parent_error w p of
        Some e \<Rightarrow> Inl e
      | None \<Rightarrow>
          if is_dir w p then Inl IsADirectoryError
          else Inr (w\<lparr>files := (files w)(p \<mapsto> d)\<rparr>))"

text \<open>
  Reading in text mode translates \<open>\r\n\<close> and \<open>\r\<close> to \<open>\n\<close> (universal newlines);
  writing in text mode on POSIX leaves the text as it is. A pickle is not text.
\<close>

fun universal_newlines :: "string \<Rightarrow> string" where
  "universal_newlines [] = []"
| "universal_newlines [c] = [if c = CHR 0x0D then CHR 0x0A else c]"
| "universal_newlines (c # d # s) =
     (if c = CHR 0x0D then
        (if d = CHR 0x0A then CHR 0x0A # universal_newlines s
         else CHR 0x0A # universal_newlines (d # s))
      else c # universal_newlines (d # s))"

definition open_read_text :: "string \<Rightarrow> world \<Rightarrow> error + string" where
  "open_read_text p w =
     (case fs_read p w of
        Inl e \<Rightarrow> Inl e
      | Inr (TextFile s) \<Rightarrow> Inr (universal_newlines s)
      | Inr (PickleFile obj) \<Rightarrow> Inl UnicodeDecodeError)"

text \<open>\<open>pickle.loads\<close> of a file's bytes: a file of text is not a pickle.\<close>

definition pickle_loads :: "file_data \<Rightarrow> error + pyobj" where
  "pickle_loads d = (case d of TextFile s \<Rightarrow> Inl UnpicklingError | PickleFile obj \<Rightarrow> Inr obj)"

definition os_mkdir :: "string \<Rightarrow> world \<Rightarrow> (error + unit) \<times> world" where
  "os_mkdir p w =
     (case parent_error w p of
        Some e \<Rightarrow> (Inl e, w)
      | None \<Rightarrow>
          if path_exists w p then (Inl FileExistsError, w)
          else (Inr (), w\<lparr>dirs := insert p (dirs w)\<rparr>))"

text \<open>
  \<open>os.makedirs\<close> for a relative path of two components: the first is made when
  nothing of that name exists, then the path itself.
\<close>

definition os_makedirs :: "string \<Rightarrow> world \<Rightarrow> (error + unit) \<times> world" where
  "os_makedirs p w =
     (let head = posix_dirname p;
          w1 = (if head \<noteq> [] \<and> \<not> path_exists w head then snd (os_mkdir head w) else w)
      in os_mkdir p w1)"

section \<open>\<open>NOAAClient\<close>\<close>

text \<open>
  Every method takes the world and returns its result with the world it leaves: \<open>Inl\<close>
  is an exception that leaves the method, \<open>Inr\<close> the value returned. Logging is left out.
\<close>

definition base_url :: string where
  "base_url = ''https://www.ndbc.noaa.gov''"

definition NOAAClient_url :: "string list \<Rightarrow> string" where
  "NOAAClient_url path = posixpath_join base_url path"

text \<open>
  The locals of \<open>_get\<close> that name the cache entry: the text \<^verbatim>\<open>f"{url}.{params}"\<close>,
  its SHA-1 in hexadecimal, and the path of the file.
\<close>

definition cache_text :: "string \<Rightarrow> params \<Rightarrow> string" where
  "cache_text url ps = url @ ''.'' @ str_dict ps"

definition cache_key :: "string \<Rightarrow> params \<Rightarrow> string" where
  "cache_key url ps = hexdigest (sha1 (encode (cache_text url ps)))"

definition cache_file :: "string \<Rightarrow> params \<Rightarrow> string" where
  "cache_file url ps = posixpath_join ''.'' [''cache'', cache_key url ps @ ''.html'']"

definition NOAAClient_get :: "string \<Rightarrow> params \<Rightarrow> world \<Rightarrow> (error + string option) \<times> world" where
  "NOAAClient_get url ps w =
     (case open_read_text (cache_file url ps) w of
        Inr text \<Rightarrow> (Inr (Some text), w)
      | Inl e \<Rightarrow>
          if e \<noteq> FileNotFoundError then (Inl e, w)
          else
            (let w1 = w\<lparr>requests := Suc (requests w)\<rparr> in
             case remote w url ps of
               ClientFailure \<Rightarrow> (Inl ClientError, w1)
             | Response status body \<Rightarrow>
                 if status = 200 then
                   (case fs_write (cache_file url ps) (TextFile body) w1 of
                      Inl e' \<Rightarrow> (Inl e', w1)
                    | Inr w2 \<Rightarrow> (Inr (Some body), w2))
                 else (Inr None, w1)))"

text \<open>\<open>BeautifulSoup(html)\<close>: the constructor takes the length of its markup, which \<open>None\<close> has not.\<close>

definition BeautifulSoup :: "world \<Rightarrow> string option \<Rightarrow> error + node" where
  "BeautifulSoup w html = (case html of None \<Rightarrow> Inl TypeError | Some text \<Rightarrow> Inr (lxml w text))"

definition station_file :: "int \<Rightarrow> string" where
  "station_file station_id = ''stations/'' @ str_int station_id @ ''.pickle''"

definition lstrip :: "char \<Rightarrow> string \<Rightarrow> string" where
  "lstrip c s = dropWhile (\<lambda>x. x = c) s"

text \<open>The loop of \<open>station\<close> over the anchors; \<open>st\<close> is the variable \<open>station\<close>.\<close>

fun station_loop ::
  "int \<Rightarrow> node \<Rightarrow> (node \<times> string) list \<Rightarrow> pyobj option \<Rightarrow> world \<Rightarrow> (error + pyobj option) \<times> world" where
  "station_loop station_id soup [] st w = (Inr st, w)"
| "station_loop station_id soup ((parent, href) # rest) st w =
     (if href = ''/data/latest_obs/'' @ str_int station_id @ ''.rss'' then
        (case find_first ''div'' (has_id ''stn_metadata'') soup of
           None \<Rightarrow> (Inl AttributeError, w)
         | Some (_, metadata) \<Rightarrow>
             (case re_search lat_long_re (get_text metadata) of
                Some [g1, g2] \<Rightarrow>
                  (let found = PStation \<lparr>id' = station_id, name = get_text parent,
                                         rss = NOAAClient_url [lstrip CHR ''/'' href],
                                         latitude = g1, longitude = g2\<rparr>
                   in case fs_write (station_file station_id) (PickleFile found) w of
                        Inl e \<Rightarrow> (Inl e, w)
                      | Inr w' \<Rightarrow> station_loop station_id soup rest (Some found) w')
              | _ \<Rightarrow> station_loop station_id soup rest st w))
      else station_loop station_id soup rest st w)"

definition station :: "int \<Rightarrow> world \<Rightarrow> (error + pyobj option) \<times> world" where
  "station station_id w =
     (case fs_read (station_file station_id) w of
        Inr bytes \<Rightarrow>
          (case pickle_loads bytes of Inl e \<Rightarrow> (Inl e, w) | Inr obj \<Rightarrow> (Inr (Some obj), w))
      | Inl e \<Rightarrow>
          if e \<noteq> FileNotFoundError then (Inl e, w)
          else
            (case NOAAClient_get (NOAAClient_url [''station_page.php'']) [(''station'', PInt station_id)] w of
               (Inl e', w1) \<Rightarrow> (Inl e', w1)
             | (Inr None, w1) \<Rightarrow> (Inr None, w1)
             | (Inr (Some html), w1) \<Rightarrow>
                 if html = [] then (Inr None, w1)
                 else station_loop station_id (lxml w1 html) (anchors (lxml w1 html)) None w1))"

text \<open>The body of the loop of \<open>station_report\<close> over the rows of the table.\<close>

definition report_row :: "StationReport \<Rightarrow> node \<Rightarrow> StationReport" where
  "report_row report row =
     (case map snd (findAll ''td'' (\<lambda>el. True) row) of
        c0 # c1 # c2 # _ \<Rightarrow>
          (let key = get_text c1; val = str_split (get_text c2) in
           if re_search (label_re ''Wave Height'') key \<noteq> None
             then report\<lparr>wave_height := Some val\<rparr>
           else if re_search (label_re ''Dominant Wave Period'') key \<noteq> None
             then report\<lparr>wave_dominant_period := Some val\<rparr>
           else if re_search (label_re ''Average Period'') key \<noteq> None
             then report\<lparr>wave_average_period := Some val\<rparr>
           else if re_search (label_re ''Mean Wave Direction'') key \<noteq> None
             then (case re_search deg_re (get_text c2) of
                     Some (g # _) \<Rightarrow> report\<lparr>wave_mean_degrees := Some (str_split g)\<rparr>
                   | _ \<Rightarrow> report)
           else if re_search (label_re ''Water Temperature'') key \<noteq> None
             then report\<lparr>water_temperature := Some val\<rparr>
           else report)
      | _ \<Rightarrow> report)"

definition new_report :: "datetime \<Rightarrow> StationReport" where
  "new_report t = \<lparr>timestamp = t, wave_height = None, wave_dominant_period = None,
                    wave_average_period = None, wave_mean_degrees = None,
                    water_temperature = None\<rparr>"

definition report_dir :: "int \<Rightarrow> string" where
  "report_dir station_id = ''reports/'' @ str_int station_id"

definition report_file :: "int \<Rightarrow> datetime \<Rightarrow> string" where
  "report_file station_id t = report_dir station_id @ ''/'' @ str_timestamp t @ ''.pickle''"

text \<open>The end of \<open>station_report\<close>: make the directory, pickle the report into it.\<close>

definition save_report :: "int \<Rightarrow> StationReport \<Rightarrow> world \<Rightarrow> (error + StationReport option) \<times> world" where
  "save_report station_id report w =
     (case os_makedirs (report_dir station_id) w of
        (Inl e, w1) \<Rightarrow>
          if e \<noteq> FileExistsError then (Inl e, w1)
          else (case fs_write (report_file station_id (timestamp report)) (PickleFile (PReport report)) w1 of
                  Inl e' \<Rightarrow> (Inl e', w1)
                | Inr w2 \<Rightarrow> (Inr (Some report), w2))
      | (Inr u, w1) \<Rightarrow>
          (case fs_write (report_file station_id (timestamp report)) (PickleFile (PReport report)) w1 of
             Inl e' \<Rightarrow> (Inl e', w1)
           | Inr w2 \<Rightarrow> (Inr (Some report), w2)))"

definition station_report :: "int \<Rightarrow> world \<Rightarrow> (error + StationReport option) \<times> world" where
  "station_report station_id w =
     (case NOAAClient_get (NOAAClient_url [''station_page.php'']) [(''station'', PInt station_id)] w of
        (Inl e, w1) \<Rightarrow> (Inl e, w1)
      | (Inr None, w1) \<Rightarrow> (Inr None, w1)
      | (Inr (Some html), w1) \<Rightarrow>
          if html = [] then (Inr None, w1)
          else
            (case find_first ''caption'' (has_class ''titleDataHeader'') (lxml w1 html) of
               None \<Rightarrow> (Inr None, w1)
             | Some (table, caption) \<Rightarrow>
                 (case re_search caption_re (get_text caption) of
                    Some (g # _) \<Rightarrow>
                      (case strptime g of
                         Inl e \<Rightarrow> (Inl e, w1)
                       | Inr t \<Rightarrow>
                           save_report station_id
                             (foldl report_row (new_report t) (map snd (findAll ''tr'' (\<lambda>el. True) table)))
                             w1)
                  | _ \<Rightarrow> (Inr None, w1))))"

text \<open>The loop of \<open>station_list\<close> over the anchors.\<close>

fun station_list_loop :: "(node \<times> string) list \<Rightarrow> int list \<Rightarrow> int list" where
  "station_list_loop [] stations = stations"
| "station_list_loop ((parent, href) # rest) stations =
     (case re_search station_href_re href of
        Some (g # _) \<Rightarrow>
          (case py_int g of
             Inr station_id \<Rightarrow> station_list_loop rest (stations @ [station_id])
           | Inl e \<Rightarrow> station_list_loop rest stations)
      | _ \<Rightarrow> station_list_loop rest stations)"

definition station_list :: "world \<Rightarrow> (error + int list) \<times> world" where
  "station_list w =
     (case NOAAClient_get (NOAAClient_url [''to_station.shtml'']) [] w of
        (Inl e, w1) \<Rightarrow> (Inl e, w1)
      | (Inr html, w1) \<Rightarrow>
          (case BeautifulSoup w1 html of
             Inl e \<Rightarrow> (Inl e, w1)
           | Inr soup \<Rightarrow> (Inr (station_list_loop (anchors soup) []), w1)))"

section \<open>\<open>run\<close>\<close>

text \<open>
  \<open>asyncio.gather\<close> with its default \<open>return_exceptions=False\<close>: the results in the
  order of the tasks, or the exception of a task that raised. The tasks are run one
  after the other in the order of the list; the event loop may interleave them at
  their awaits, which no result below depends on.
\<close>

fun gather :: "(world \<Rightarrow> (error + 'a) \<times> world) list \<Rightarrow> world \<Rightarrow> (error + 'a list) \<times> world" where
  "gather [] w = (Inr [], w)"
| "gather (task # tasks) w =
     (case task w of
        (Inl e, w1) \<Rightarrow> (Inl e, w1)
      | (Inr r, w1) \<Rightarrow>
          (case gather tasks w1 of
             (Inl e, w2) \<Rightarrow> (Inl e, w2)
           | (Inr rs, w2) \<Rightarrow> (Inr (r # rs), w2)))"

text \<open>A dict comprehension over pairs: a later pair replaces an earlier one with its key.\<close>

definition dict_of :: "('k \<times> 'v) list \<Rightarrow> ('k \<rightharpoonup> 'v)" where
  "dict_of kvs = foldl (\<lambda>m kv. m(fst kv \<mapsto> snd kv)) Map.empty kvs"

definition run :: "world \<Rightarrow> (error + (int \<rightharpoonup> StationReport option)) \<times> world" where
  "run w =
     (case station_list w of
        (Inl e, w1) \<Rightarrow> (Inl e, w1)
      | (Inr stations, w1) \<Rightarrow>
          (case gather (map station_report stations) w1 of
             (Inl e, w2) \<Rightarrow> (Inl e, w2)
           | (Inr result, w2) \<Rightarrow> (Inr (dict_of (zip stations result)), w2)))"

section \<open>Worlds used as examples\<close>

definition document :: "node list \<Rightarrow> node" where
  "document cs = Tag ''[document]'' [] cs"

definition fresh_world :: "(string \<Rightarrow> params \<Rightarrow> net_result) \<Rightarrow> (string \<Rightarrow> node) \<Rightarrow> string set \<Rightarrow> world" where
  "fresh_world server parser ds =
     \<lparr>files = Map.empty, dirs = ds, remote = server, requests = 0, lxml = parser\<rparr>"

definition ok_server :: "string \<Rightarrow> string \<Rightarrow> params \<Rightarrow> net_result" where
  "ok_server body url ps = Response 200 body"

definition status_server :: "int \<Rightarrow> string \<Rightarrow> params \<Rightarrow> net_result" where
  "status_server status url ps = Response status []"

definition parser_of :: "node \<Rightarrow> string \<Rightarrow> node" where
  "parser_of soup html = soup"

text \<open>The station that one anchor target contributes to \<open>station_list\<close>, if any.\<close>

definition href_station :: "string \<Rightarrow> int option" where
  "href_station href =
     (case re_search station_href_re href of
        Some (g # _) \<Rightarrow> (case py_int g of Inr station_id \<Rightarrow> Some station_id | Inl e \<Rightarrow> None)
      | _ \<Rightarrow> None)"

text \<open>An index page with two anchors to the same station.\<close>

definition dup_index :: node where
  "dup_index = document
     [Tag ''a'' [(''href'', ''station_page.php?station=46086'')] [Text ''46086''],
      Tag ''a'' [(''href'', ''station_page.php?station=46086'')] [Text ''46086 again'']]"

text \<open>The label of a table row: the text of its second cell, when it has three cells.\<close>

definition row_label :: "node \<Rightarrow> string option" where
  "row_label row =
     (case map snd (findAll ''td'' (\<lambda>el. True) row) of
        c0 # c1 # c2 # _ \<Rightarrow> Some (get_text c1)
      | _ \<Rightarrow> None)"

definition known_labels :: "string list" where
  "known_labels = [''Wave Height'', ''Dominant Wave Period'', ''Average Period'',
                   ''Mean Wave Direction'', ''Water Temperature'']"

text \<open>A row of three cells, and a report table with a caption and three rows.\<close>

definition table_row :: "string \<Rightarrow> string \<Rightarrow> node" where
  "table_row label val =
     Tag ''tr'' [] [Tag ''td'' [] [], Tag ''td'' [] [Text label], Tag ''td'' [] [Text val]]"

definition report_table :: "string \<Rightarrow> node list \<Rightarrow> node" where
  "report_table caption_text rows =
     Tag ''table'' [] (Tag ''caption'' [(''class'', ''titleDataHeader'')] [Text caption_text] # rows)"

definition fixture_rows :: "node list" where
  "fixture_rows =
     [table_row ''Wave Height'' ''4.2 ft'',
      table_row ''Mean Wave Direction'' ''(from the NNE) some text 38 deg'',
      table_row ''Air Pressure'' ''30.1 in'']"

text \<open>Station pages whose parse holds one report table.\<close>

definition report_page :: "string \<Rightarrow> node list \<Rightarrow> node" where
  "report_page caption_text rows = document [report_table caption_text rows]"

definition page_world :: "node \<Rightarrow> world" where
  "page_world soup = fresh_world (ok_server ''<html>'') (parser_of soup) {''./cache''}"

text \<open>A station page with the anchor of station 46086 and no metadata block.\<close>

definition no_metadata_page :: node where
  "no_metadata_page = document
     [Tag ''p'' [] [Tag ''a'' [(''href'', ''/data/latest_obs/46086.rss'')] [Text ''Station 46086'']]]"

text \<open>
  A batch of two stations. Every page parses to the same soup, which has the two
  anchors of the index and a report table; the service answers the page of station
  46086 with \<open>failure\<close> and every other request with status 200.
\<close>

definition batch_soup :: node where
  "batch_soup = document
     [Tag ''a'' [(''href'', ''station_page.php?station=46086'')] [Text ''46086''],
      Tag ''a'' [(''href'', ''station_page.php?station=46087'')] [Text ''46087''],
      report_table ''1450 GMT on 03/01/2020:'' fixture_rows]"

definition batch_server :: "net_result \<Rightarrow> string \<Rightarrow> params \<Rightarrow> net_result" where
  "batch_server failure url ps =
     (if ps = [(''station'', PInt 46086)] then failure else Response 200 ''<html>'')"

definition batch_world :: "net_result \<Rightarrow> world" where
  "batch_world failure = fresh_world (batch_server failure) (parser_of batch_soup) {''./cache''}"

definition fixture_report :: StationReport where
  "fixture_report =
     \<lparr>timestamp = \<lparr>year = 2020, month = 3, day = 1, hour = 14, minute = 50\<rparr>,
      wave_height = Some [''4.2'', ''ft''], wave_dominant_period = None,
      wave_average_period = None, wave_mean_degrees = Some [''38'', ''deg''],
      water_temperature = None\<rparr>"

section \<open>The cache entry of a request\<close>

lemma hexdigit_in: "n < 16 \<Longrightarrow> hexdigit n \<in> set ''0123456789abcdef''"
proof -
  assume "n < 16"
  then consider "n = 0" | "n = 1" | "n = 2" | "n = 3" | "n = 4" | "n = 5" | "n = 6" | "n = 7"
    | "n = 8" | "n = 9" | "n = 10" | "n = 11" | "n = 12" | "n = 13" | "n = 14" | "n = 15"
    by atomize_elim arith
  then show ?thesis
    by cases (simp_all add: hexdigit_def)
qed

lemma and_15_less: "(x::nat) AND 15 < 16"
proof -
  have "int x AND 15 < 16" by (rule AND_upper2'') simp_all
  moreover have "int (x AND 15) = int x AND 15" by (simp add: of_nat_and_eq)
  ultimately show ?thesis by linarith
qed

lemma hex32_set: "set (hex32 w) \<subseteq> set ''0123456789abcdef''"
proof
  fix c
  assume "c \<in> set (hex32 w)"
  then obtain i where "c = hexdigit (drop_bit (4 * i) w AND 15)"
    unfolding hex32_def set_map by blast
  moreover have "drop_bit (4 * i) w AND 15 < 16"
    by (rule and_15_less)
  ultimately show "c \<in> set ''0123456789abcdef''"
    using hexdigit_in by simp
qed

lemma hexdigest_set: "set (hexdigest ws) \<subseteq> set ''0123456789abcdef''"
  unfolding hexdigest_def using hex32_set by fastforce

lemma slash_not_in_cache_key: "CHR ''/'' \<notin> set (cache_key url ps)"
  using hexdigest_set [of "sha1 (encode (cache_text url ps))"]
  by (auto simp: cache_key_def)

lemma cache_file_eq: "cache_file url ps = ''./cache/'' @ cache_key url ps @ ''.html''"
proof -
  have "take 1 (cache_key url ps @ ''.html'') \<noteq> ''/''"
    using slash_not_in_cache_key [of url ps] by (cases "cache_key url ps") auto
  then show ?thesis by (simp add: cache_file_def)
qed

lemma posix_dirname_join:
  assumes "CHR ''/'' \<notin> set f"
  shows "posix_dirname (d @ ''/'' @ f) = d"
proof -
  have "dropWhile (\<lambda>c. c \<noteq> CHR ''/'') (rev f @ CHR ''/'' # rev d) =
        dropWhile (\<lambda>c. c \<noteq> CHR ''/'') (CHR ''/'' # rev d)"
    by (rule dropWhile_append2) (use assms in auto)
  then show ?thesis by (simp add: posix_dirname_def)
qed

lemma dirname_cache_file: "posix_dirname (cache_file url ps) = ''./cache''"
  using posix_dirname_join [of "cache_key url ps @ ''.html''" "''./cache''"]
    slash_not_in_cache_key [of url ps]
  by (simp add: cache_file_eq)

lemma cache_file_not_cwd: "cache_file url ps \<noteq> []" "cache_file url ps \<noteq> ''.''"
  by (simp_all add: cache_file_eq)

lemma get_hit:
  assumes "open_read_text (cache_file url ps) w = Inr text"
  shows "NOAAClient_get url ps w = (Inr (Some text), w)"
  using assms by (simp add: NOAAClient_get_def)

lemma get_failure:
  assumes "open_read_text (cache_file url ps) w = Inl FileNotFoundError"
    and "remote w url ps = ClientFailure"
  shows "NOAAClient_get url ps w = (Inl ClientError, w\<lparr>requests := Suc (requests w)\<rparr>)"
  using assms by (simp add: NOAAClient_get_def)

lemma get_non200:
  assumes "open_read_text (cache_file url ps) w = Inl FileNotFoundError"
    and "remote w url ps = Response status body" and "status \<noteq> 200"
  shows "NOAAClient_get url ps w = (Inr None, w\<lparr>requests := Suc (requests w)\<rparr>)"
  using assms by (simp add: NOAAClient_get_def)

lemma get_200:
  assumes "open_read_text (cache_file url ps) w = Inl FileNotFoundError"
    and "remote w url ps = Response 200 body"
  shows "NOAAClient_get url ps w =
    (case fs_write (cache_file url ps) (TextFile body) (w\<lparr>requests := Suc (requests w)\<rparr>) of
       Inl e \<Rightarrow> (Inl e, w\<lparr>requests := Suc (requests w)\<rparr>)
     | Inr w2 \<Rightarrow> (Inr (Some body), w2))"
  using assms by (simp add: NOAAClient_get_def Let_def)

text \<open>When is the cache entry missing, and when can it be written.\<close>

lemma read_missing:
  assumes "files w (cache_file url ps) = None" and "cache_file url ps \<notin> dirs w"
    and "files w ''./cache'' = None"
  shows "open_read_text (cache_file url ps) w = Inl FileNotFoundError"
  using assms
  by (simp add: open_read_text_def fs_read_def parent_error_def dirname_cache_file is_dir_def Let_def
      cache_file_not_cwd)

lemma write_cache:
  assumes "''./cache'' \<in> dirs w" and "cache_file url ps \<notin> dirs w"
  shows "fs_write (cache_file url ps) d w = Inr (w\<lparr>files := (files w)(cache_file url ps \<mapsto> d)\<rparr>)"
  using assms
  by (simp add: fs_write_def parent_error_def dirname_cache_file is_dir_def Let_def cache_file_not_cwd)

lemma write_cache_fails:
  assumes "''./cache'' \<notin> dirs w"
  shows "\<exists>e. fs_write (cache_file url ps) d w = Inl e"
  using assms
  by (simp add: fs_write_def parent_error_def dirname_cache_file is_dir_def Let_def)

lemma universal_newlines_id: "CHR 0x0D \<notin> set s \<Longrightarrow> universal_newlines s = s"
  by (induction s rule: universal_newlines.induct) auto

lemma universal_newlines_no_cr: "CHR 0x0D \<notin> set (universal_newlines s)"
  by (induction s rule: universal_newlines.induct) auto

lemma universal_newlines_idem: "universal_newlines (universal_newlines s) = universal_newlines s"
  by (simp add: universal_newlines_id universal_newlines_no_cr)


lemma get_fetch:
  assumes "files w (cache_file url ps) = None" and "files w ''./cache'' = None"
    and "''./cache'' \<in> dirs w" and "cache_file url ps \<notin> dirs w"
    and "remote w url ps = Response 200 body"
  shows "NOAAClient_get url ps w =
    (Inr (Some body), w\<lparr>requests := Suc (requests w),
                          files := (files w)(cache_file url ps \<mapsto> TextFile body)\<rparr>)"
  using assms by (simp add: get_200 read_missing write_cache)

lemma get_fetch_no_cache_dir:
  assumes "files w (cache_file url ps) = None" and "files w ''./cache'' = None"
    and "''./cache'' \<notin> dirs w" and "cache_file url ps \<notin> dirs w"
    and "remote w url ps = Response 200 body"
  shows "NOAAClient_get url ps w = (Inl FileNotFoundError, w\<lparr>requests := Suc (requests w)\<rparr>)"
  using assms
  by (simp add: get_200 read_missing fs_write_def parent_error_def dirname_cache_file
      is_dir_def Let_def)

text \<open>
  Claim C5, as the code has it. On a cache miss answered with status 200 the body is
  written to the cache before it is returned, and the write is not guarded: with the
  directory \<open>./cache\<close> in place the body is returned and the entry stored; without it
  the \<open>FileNotFoundError\<close> of the write leaves \<open>_get\<close> and no body is returned.
\<close>

theorem get_returns_body_iff_cache_written:
  assumes "files w (cache_file url ps) = None" and "files w ''./cache'' = None"
    and "cache_file url ps \<notin> dirs w" and "remote w url ps = Response 200 body"
  shows "(''./cache'' \<in> dirs w \<longrightarrow>
            NOAAClient_get url ps w =
              (Inr (Some body), w\<lparr>requests := Suc (requests w),
                                    files := (files w)(cache_file url ps \<mapsto> TextFile body)\<rparr>))
       \<and> (''./cache'' \<notin> dirs w \<longrightarrow>
            NOAAClient_get url ps w =
              (Inl FileNotFoundError, w\<lparr>requests := Suc (requests w)\<rparr>))"
  using assms by (simp add: get_fetch get_fetch_no_cache_dir)

theorem get_returns_body_iff_cache_written_witness:
  "NOAAClient_get ''u'' [] (fresh_world (ok_server ''body'') (parser_of (document [])) {''./cache''}) =
     (Inr (Some ''body''),
      (fresh_world (ok_server ''body'') (parser_of (document [])) {''./cache''})
        \<lparr>requests := 1, files := [cache_file ''u'' [] \<mapsto> TextFile ''body'']\<rparr>)
   \<and> NOAAClient_get ''u'' [] (fresh_world (ok_server ''body'') (parser_of (document [])) {}) =
     (Inl FileNotFoundError,
      (fresh_world (ok_server ''body'') (parser_of (document [])) {})\<lparr>requests := 1\<rparr>)"
  using get_returns_body_iff_cache_written
      [of "fresh_world (ok_server ''body'') (parser_of (document [])) {''./cache''}" "''u''" "[]" "''body''"]
    get_returns_body_iff_cache_written
      [of "fresh_world (ok_server ''body'') (parser_of (document [])) {}" "''u''" "[]" "''body''"]
  by (simp add: fresh_world_def ok_server_def cache_file_eq)

text \<open>
  Claim C5 as stated fails: the GET succeeds, the cache directory is missing, and the
  caller gets the error of the write instead of the body.
\<close>

theorem cache_write_failure_counterexample:
  "NOAAClient_get ''u'' [] (fresh_world (ok_server ''body'') (parser_of (document [])) {}) =
     (Inl FileNotFoundError,
      (fresh_world (ok_server ''body'') (parser_of (document [])) {})\<lparr>requests := 1\<rparr>)"
  by (simp add: get_fetch_no_cache_dir fresh_world_def ok_server_def cache_file_eq)

lemma read_after_write:
  assumes "fs_write p (TextFile body) w = Inr w2"
  shows "open_read_text p w2 = Inr (universal_newlines body)"
  using assms
  by (auto simp: fs_write_def open_read_text_def fs_read_def parent_error_def is_dir_def Let_def
      split: option.splits if_splits)

lemma get_Some_cases:
  assumes "NOAAClient_get url ps w = (Inr (Some b), w1)"
  shows "(open_read_text (cache_file url ps) w = Inr b \<and> w1 = w)
       \<or> (fs_write (cache_file url ps) (TextFile b) (w\<lparr>requests := Suc (requests w)\<rparr>) = Inr w1)"
  using assms
  by (auto simp: NOAAClient_get_def Let_def split: sum.splits if_splits net_result.splits)

lemma open_read_text_no_cr:
  "open_read_text p w = Inr b \<Longrightarrow> universal_newlines b = b"
  by (auto simp: open_read_text_def universal_newlines_idem split: sum.splits file_data.splits)

text \<open>
  Claim C7, as the code has it. After a call that returned a body, the same request is
  answered from the cache: the world is left as it was, so no GET is sent, and the
  body is the first one with its line ends read back as \<open>\n\<close>; it is the very same
  text when the first body has no carriage return.
\<close>

theorem get_twice:
  assumes "NOAAClient_get url ps w = (Inr (Some b), w1)"
  shows "NOAAClient_get url ps w1 = (Inr (Some (universal_newlines b)), w1)
       \<and> (CHR 0x0D \<notin> set b \<longrightarrow> universal_newlines b = b)"
proof -
  from get_Some_cases [OF assms]
  have "open_read_text (cache_file url ps) w1 = Inr (universal_newlines b)"
  proof
    assume "open_read_text (cache_file url ps) w = Inr b \<and> w1 = w"
    then show ?thesis using open_read_text_no_cr by auto
  next
    assume "fs_write (cache_file url ps) (TextFile b) (w\<lparr>requests := Suc (requests w)\<rparr>) = Inr w1"
    then show ?thesis by (rule read_after_write)
  qed
  then show ?thesis by (simp add: get_hit universal_newlines_id)
qed

theorem get_twice_witness:
  "NOAAClient_get ''u'' []
     ((fresh_world (ok_server ''body'') (parser_of (document [])) {''./cache''})
        \<lparr>requests := 1, files := [cache_file ''u'' [] \<mapsto> TextFile ''body'']\<rparr>) =
   (Inr (Some ''body''),
     (fresh_world (ok_server ''body'') (parser_of (document [])) {''./cache''})
        \<lparr>requests := 1, files := [cache_file ''u'' [] \<mapsto> TextFile ''body'']\<rparr>)"
proof -
  have "NOAAClient_get ''u'' [] (fresh_world (ok_server ''body'') (parser_of (document [])) {''./cache''}) =
     (Inr (Some ''body''),
      (fresh_world (ok_server ''body'') (parser_of (document [])) {''./cache''})
        \<lparr>requests := 1, files := [cache_file ''u'' [] \<mapsto> TextFile ''body'']\<rparr>)"
    by (simp add: get_fetch fresh_world_def ok_server_def cache_file_eq)
  from get_twice [OF this] show ?thesis by simp
qed

text \<open>
  Claim C7 as stated fails on a body with a carriage return: the first call returns
  the text of the response, the second the text of the cache file read in text mode.
\<close>

theorem get_twice_counterexample:
  "fst (NOAAClient_get ''u'' [] (fresh_world (ok_server [CHR ''a'', CHR 0x0D, CHR ''b'']) (parser_of (document [])) {''./cache''}))
     = Inr (Some [CHR ''a'', CHR 0x0D, CHR ''b''])
   \<and> fst (NOAAClient_get ''u'' []
        (snd (NOAAClient_get ''u'' [] (fresh_world (ok_server [CHR ''a'', CHR 0x0D, CHR ''b'']) (parser_of (document [])) {''./cache''}))))
     = Inr (Some [CHR ''a'', CHR 0x0A, CHR ''b''])"
proof -
  have first: "NOAAClient_get ''u'' [] (fresh_world (ok_server [CHR ''a'', CHR 0x0D, CHR ''b'']) (parser_of (document [])) {''./cache''}) =
     (Inr (Some [CHR ''a'', CHR 0x0D, CHR ''b'']),
      (fresh_world (ok_server [CHR ''a'', CHR 0x0D, CHR ''b'']) (parser_of (document [])) {''./cache''})
        \<lparr>requests := 1, files := [cache_file ''u'' [] \<mapsto> TextFile [CHR ''a'', CHR 0x0D, CHR ''b'']]\<rparr>)"
    by (simp add: get_fetch fresh_world_def ok_server_def cache_file_eq)
  have "open_read_text (cache_file ''u'' [])
      ((fresh_world (ok_server [CHR ''a'', CHR 0x0D, CHR ''b'']) (parser_of (document [])) {''./cache''})
        \<lparr>requests := 1, files := [cache_file ''u'' [] \<mapsto> TextFile [CHR ''a'', CHR 0x0D, CHR ''b'']]\<rparr>)
      = Inr [CHR ''a'', CHR 0x0A, CHR ''b'']"
    by (simp add: open_read_text_def fs_read_def parent_error_def dirname_cache_file is_dir_def
        Let_def fresh_world_def cache_file_not_cwd)
       (simp add: cache_file_eq)
  then show ?thesis by (simp add: first get_hit)
qed

section \<open>\<open>station_list\<close>\<close>

lemma station_list_loop_eq:
  "station_list_loop as acc = acc @ List.map_filter (\<lambda>a. href_station (snd a)) as"
proof (induction as arbitrary: acc)
  case Nil
  then show ?case by (simp add: List.map_filter_simps)
next
  case (Cons a as)
  obtain parent href where a: "a = (parent, href)" by (cases a)
  show ?case
    by (simp add: a Cons.IH href_station_def List.map_filter_simps
        split: option.splits list.splits sum.splits)
qed

lemma count_list_map_filter:
  "count_list (List.map_filter f xs) y = length (filter (\<lambda>x. f x = Some y) xs)"
  by (induction xs) (auto simp: List.map_filter_simps split: option.splits)

text \<open>
  Claim C6, as the code has it. \<open>station_list\<close> returns a list, in page order, with
  one entry for every anchor whose target names a station: an identifier occurs in the
  result as many times as anchors target it.
\<close>

theorem station_list_one_entry_per_anchor:
  assumes "NOAAClient_get (NOAAClient_url [''to_station.shtml'']) [] w = (Inr (Some html), w1)"
  shows "station_list w =
           (Inr (List.map_filter (\<lambda>a. href_station (snd a)) (anchors (lxml w1 html))), w1)
       \<and> (\<forall>n. count_list (List.map_filter (\<lambda>a. href_station (snd a)) (anchors (lxml w1 html))) n =
                length (filter (\<lambda>a. href_station (snd a) = Some n) (anchors (lxml w1 html))))"
  using assms
  by (simp add: station_list_def BeautifulSoup_def station_list_loop_eq count_list_map_filter)

lemma anchors_dup_index:
  "anchors dup_index =
     [(dup_index, ''station_page.php?station=46086''), (dup_index, ''station_page.php?station=46086'')]"
  by (simp add: anchors_def findAll_def dup_index_def document_def List.map_filter_simps)

lemma href_station_46086: "href_station ''station_page.php?station=46086'' = Some 46086"
  by (simp add: href_station_def re_search_def station_href_re_def seqs_def lit_def digit_def
      py_int_def isdigit_def digit_val_def)

lemma get_index_fresh:
  "NOAAClient_get (NOAAClient_url [''to_station.shtml'']) []
     (fresh_world (ok_server ''index'') (parser_of soup) {''./cache''}) =
   (Inr (Some ''index''),
    (fresh_world (ok_server ''index'') (parser_of soup) {''./cache''})
      \<lparr>requests := 1,
        files := [cache_file (NOAAClient_url [''to_station.shtml'']) [] \<mapsto> TextFile ''index'']\<rparr>)"
  by (simp add: get_fetch fresh_world_def ok_server_def cache_file_eq)

theorem station_list_one_entry_per_anchor_witness:
  "station_list (fresh_world (ok_server ''index'') (parser_of dup_index) {''./cache''}) =
     (Inr [46086, 46086],
      (fresh_world (ok_server ''index'') (parser_of dup_index) {''./cache''})
        \<lparr>requests := 1,
          files := [cache_file (NOAAClient_url [''to_station.shtml'']) [] \<mapsto> TextFile ''index'']\<rparr>)"
  using station_list_one_entry_per_anchor [OF get_index_fresh [of dup_index]]
  by (simp add: fresh_world_def parser_of_def anchors_dup_index href_station_46086
      List.map_filter_simps)

text \<open>
  Claim C6 as stated fails: two anchors to station 46086 give 46086 twice.
\<close>

theorem station_list_duplicates_counterexample:
  "fst (station_list (fresh_world (ok_server ''index'') (parser_of dup_index) {''./cache''})) =
     Inr [46086, 46086]"
  by (simp add: station_list_def get_index_fresh BeautifulSoup_def)
     (simp add: fresh_world_def parser_of_def anchors_dup_index station_list_loop_eq
        href_station_46086 List.map_filter_simps)

text \<open>
  Claim C10. When the index page is not cached and the service answers with a status
  other than 200, \<open>_get\<close> returns \<open>None\<close>, which \<open>station_list\<close> hands to the parser:
  the call raises \<open>TypeError\<close> instead of returning an empty list.
\<close>

theorem station_list_raises_without_body:
  assumes "files w (cache_file (NOAAClient_url [''to_station.shtml'']) []) = None"
    and "files w ''./cache'' = None"
    and "cache_file (NOAAClient_url [''to_station.shtml'']) [] \<notin> dirs w"
    and "remote w (NOAAClient_url [''to_station.shtml'']) [] = Response status body"
    and "status \<noteq> 200"
  shows "station_list w = (Inl TypeError, w\<lparr>requests := Suc (requests w)\<rparr>)"
  using assms
  by (simp add: station_list_def get_non200 [where body = body] read_missing BeautifulSoup_def)

theorem station_list_raises_without_body_witness:
  "station_list (fresh_world (status_server 404) (parser_of (document [])) {''./cache''}) =
     (Inl TypeError, (fresh_world (status_server 404) (parser_of (document [])) {''./cache''})\<lparr>requests := 1\<rparr>)"
  using station_list_raises_without_body
    [of "fresh_world (status_server 404) (parser_of (document [])) {''./cache''}" 404 "[]"]
  by (simp add: fresh_world_def status_server_def cache_file_eq)

section \<open>\<open>station_report\<close>\<close>

lemma rmatch_lit:
  "rmatch (lit l) (n, s, caps) =
     (if prefix l s then [(n + length l, drop (length l) s, caps)] else [])"
proof (induction l arbitrary: n s)
  case Nil
  then show ?case by (simp add: lit_def seqs_def)
next
  case (Cons c l)
  have "lit (c # l) = Seq (Atom (Chr c)) (lit l)" by (simp add: lit_def seqs_def)
  then show ?case using Cons.IH by (cases s) auto
qed

lemma search_from_Bol: "0 < n \<Longrightarrow> search_from (Seq Bol r) n s = None"
  by (induction s arbitrary: n) auto

lemma re_search_label:
  "re_search (label_re l) key = (if prefix l key then Some [] else None)"
  by (cases key) (auto simp: re_search_def label_re_def rmatch_lit search_from_Bol)

lemma report_row_no_label:
  assumes "\<And>key. row_label row = Some key \<Longrightarrow> \<forall>l \<in> set known_labels. \<not> prefix l key"
  shows "report_row report row = report"
  using assms
  by (auto simp: report_row_def row_label_def known_labels_def re_search_label Let_def
      split: list.splits)

lemma foldl_report_row_no_label:
  assumes "\<forall>row \<in> set rows. \<forall>key. row_label row = Some key \<longrightarrow> (\<forall>l \<in> set known_labels. \<not> prefix l key)"
  shows "foldl report_row report rows = report"
  using assms by (induction rows) (simp_all add: report_row_no_label)


lemma digit_char_in: "n < 10 \<Longrightarrow> digit_char n \<in> set ''0123456789''"
proof -
  assume "n < 10"
  then consider "n = 0" | "n = 1" | "n = 2" | "n = 3" | "n = 4" | "n = 5" | "n = 6" | "n = 7"
    | "n = 8" | "n = 9"
    by atomize_elim arith
  then show ?thesis
    by cases (simp_all add: digit_char_def)
qed

lemma digits_set: "set (digits n) \<subseteq> set ''0123456789''"
proof (induction n rule: digits.induct)
  case (1 n)
  show ?case
  proof (cases "n < 10")
    case True
    then show ?thesis using digit_char_in [of n] by (subst digits.simps) simp
  next
    case False
    then show ?thesis
      using 1 digit_char_in [of "n mod 10"] by (subst digits.simps) auto
  qed
qed

lemma slash_not_in_str_int: "CHR ''/'' \<notin> set (str_int i)"
  using digits_set [of "nat i"] digits_set [of "nat (- i)"] by (auto simp: str_int_def)

lemma dirname_report_dir: "posix_dirname (report_dir station_id) = ''reports''"
  using posix_dirname_join [of "str_int station_id" "''reports''"] slash_not_in_str_int
  by (simp add: report_dir_def)

lemma dirname_report_file: "posix_dirname (report_file station_id t) = report_dir station_id"
  using posix_dirname_join [of "str_timestamp t @ ''.pickle''" "report_dir station_id"]
    slash_not_in_str_int [of "posix_timestamp t"]
  by (simp add: report_file_def str_timestamp_def)

lemma report_paths_distinct:
  "report_dir station_id \<noteq> []" "report_dir station_id \<noteq> ''.''"
  "report_dir station_id \<noteq> ''reports''"
  "report_file station_id t \<noteq> []" "report_file station_id t \<noteq> ''.''"
  "report_file station_id t \<noteq> ''reports''"
  "report_file station_id t \<noteq> report_dir station_id"
  by (simp_all add: report_dir_def report_file_def)

lemma dirname_reports: "posix_dirname ''reports'' = []"
  by (simp add: posix_dirname_def)

text \<open>The report is saved unless a regular file or a directory is in the way.\<close>

lemma save_report_ok:
  assumes "''reports'' \<in> dirs w \<or> files w ''reports'' = None"
    and "report_dir station_id \<in> dirs w \<or> files w (report_dir station_id) = None"
    and "report_file station_id (timestamp report) \<notin> dirs w"
  shows "save_report station_id report w =
    (Inr (Some report),
     w\<lparr>dirs := insert (report_dir station_id) (insert ''reports'' (dirs w)),
       files := (files w)(report_file station_id (timestamp report) \<mapsto> PickleFile (PReport report))\<rparr>)"
  using assms
  by (auto simp: save_report_def os_makedirs_def os_mkdir_def fs_write_def parent_error_def
      path_exists_def is_dir_def Let_def dirname_report_dir dirname_report_file dirname_reports
      report_paths_distinct insert_absorb insert_commute)


lemma strptime_error: "strptime s = Inl e \<Longrightarrow> e = ValueError"
  by (auto simp: strptime_def split: list.splits if_splits prod.splits)

text \<open>
  Claim C3. A caption with the marker whose text the search pattern accepts, but whose
  captured text \<open>strptime\<close> rejects, makes \<open>station_report\<close> raise \<open>ValueError\<close> to its
  caller: an outcome that is neither a report nor the absent result \<open>None\<close>.
\<close>

theorem station_report_bad_timestamp:
  assumes "NOAAClient_get (NOAAClient_url [''station_page.php'']) [(''station'', PInt station_id)] w
             = (Inr (Some html), w1)"
    and "html \<noteq> []"
    and "find_first ''caption'' (has_class ''titleDataHeader'') (lxml w1 html) = Some (table, caption)"
    and "re_search caption_re (get_text caption) = Some (g # gs)"
    and "strptime g = Inl e"
  shows "station_report station_id w = (Inl ValueError, w1)"
  using assms strptime_error [of g e] by (simp add: station_report_def)

text \<open>
  Claim C8. With a marker caption whose timestamp parses and a table in which no row of
  three cells has a label starting with one of the five known labels, \<open>station_report\<close>
  returns a report that carries the timestamp and has its five measurements absent.
  The report is pickled on the way out, so nothing may block its file: neither
  \<open>reports\<close> nor the station's directory is a regular file, and the file's path is
  not a directory.
\<close>

theorem station_report_no_labels:
  assumes "NOAAClient_get (NOAAClient_url [''station_page.php'']) [(''station'', PInt station_id)] w
             = (Inr (Some html), w1)"
    and "html \<noteq> []"
    and "find_first ''caption'' (has_class ''titleDataHeader'') (lxml w1 html) = Some (table, caption)"
    and "re_search caption_re (get_text caption) = Some (g # gs)"
    and "strptime g = Inr t"
    and "\<forall>row \<in> set (map snd (findAll ''tr'' (\<lambda>el. True) table)).
           \<forall>key. row_label row = Some key \<longrightarrow> (\<forall>l \<in> set known_labels. \<not> prefix l key)"
    and "''reports'' \<in> dirs w1 \<or> files w1 ''reports'' = None"
    and "report_dir station_id \<in> dirs w1 \<or> files w1 (report_dir station_id) = None"
    and "report_file station_id t \<notin> dirs w1"
  shows "fst (station_report station_id w) =
           Inr (Some \<lparr>timestamp = t, wave_height = None, wave_dominant_period = None,
                       wave_average_period = None, wave_mean_degrees = None,
                       water_temperature = None\<rparr>)"
proof -
  have rows: "foldl report_row (new_report t) (map snd (findAll ''tr'' (\<lambda>el. True) table)) = new_report t"
    using assms(6) by (rule foldl_report_row_no_label)
  have "timestamp (new_report t) = t" by (simp add: new_report_def)
  then have "save_report station_id (new_report t) w1 =
    (Inr (Some (new_report t)),
     w1\<lparr>dirs := insert (report_dir station_id) (insert ''reports'' (dirs w1)),
        files := (files w1)(report_file station_id t \<mapsto> PickleFile (PReport (new_report t)))\<rparr>)"
    using save_report_ok [of w1 station_id "new_report t"] assms(7-9) by simp
  then show ?thesis
    using assms(1-5) rows by (simp add: station_report_def new_report_def)
qed

text \<open>The example page: getting it, its caption, its rows.\<close>

lemma get_page_world:
  "NOAAClient_get url ps (page_world soup) =
     (Inr (Some ''<html>''),
      (page_world soup)\<lparr>requests := 1, files := [cache_file url ps \<mapsto> TextFile ''<html>'']\<rparr>)"
  by (simp add: page_world_def get_fetch fresh_world_def ok_server_def cache_file_eq)

lemma lxml_page_world: "lxml (page_world soup) html = soup"
  by (simp add: page_world_def fresh_world_def parser_of_def)

lemma has_class_marker:
  "has_class ''titleDataHeader'' (Tag ''caption'' [(''class'', ''titleDataHeader'')] cs)"
  by (simp add: has_class_def str_split_def isspace_def)

lemma find_caption_report_page:
  "find_first ''caption'' (has_class ''titleDataHeader'') (report_page caption_text rows) =
     Some (report_table caption_text rows,
           Tag ''caption'' [(''class'', ''titleDataHeader'')] [Text caption_text])"
  by (simp add: find_first_def findAll_def report_page_def document_def report_table_def
      has_class_marker)

lemma caption_search_bad:
  "re_search caption_re ''1450 GMT whenever on a boat:'' = Some [''1450 GMT whenever on a boat'']"
  by (simp add: re_search_def caption_re_def seqs_def lit_def digit_def)

lemma strptime_bad: "strptime ''1450 GMT whenever on a boat'' = Inl ValueError"
  by (simp add: strptime_def strptime_re_def seqs_def lit_def digit_def alts_def ci_def space_def)

theorem station_report_bad_timestamp_witness:
  "station_report 46086 (page_world (report_page ''1450 GMT whenever on a boat:'' [])) =
     (Inl ValueError,
      (page_world (report_page ''1450 GMT whenever on a boat:'' []))
        \<lparr>requests := 1,
          files := [cache_file (NOAAClient_url [''station_page.php'']) [(''station'', PInt 46086)]
                      \<mapsto> TextFile ''<html>'']\<rparr>)"
  using station_report_bad_timestamp
    [OF get_page_world [of _ _ "report_page ''1450 GMT whenever on a boat:'' []"],
     of 46086 "report_table ''1450 GMT whenever on a boat:'' []"
        "Tag ''caption'' [(''class'', ''titleDataHeader'')] [Text ''1450 GMT whenever on a boat:'']"
        "''1450 GMT whenever on a boat''" "[]" ValueError]
  by (simp add: lxml_page_world find_caption_report_page caption_search_bad strptime_bad)


lemma caption_search_ok:
  "re_search caption_re ''1450 GMT on 03/01/2020:'' = Some [''1450 GMT on 03/01/2020'']"
  by (simp add: re_search_def caption_re_def seqs_def lit_def digit_def)

lemma strptime_ok:
  "strptime ''1450 GMT on 03/01/2020'' =
     Inr \<lparr>year = 2020, month = 3, day = 1, hour = 14, minute = 50\<rparr>"
  by (simp add: strptime_def strptime_re_def seqs_def lit_def digit_def alts_def ci_def space_def
      to_nat_def isdigit_def digit_val_def days_in_month_def is_leap_def)

lemma cells_table_row:
  "map snd (findAll ''td'' (\<lambda>el. True) (table_row label val)) =
     [Tag ''td'' [] [], Tag ''td'' [] [Text label], Tag ''td'' [] [Text val]]"
  by (simp add: findAll_def table_row_def)

lemma row_label_table_row: "row_label (table_row label val) = Some label"
  by (simp add: row_label_def cells_table_row)

lemma rows_report_table:
  "map snd (findAll ''tr'' (\<lambda>el. True) (report_table caption_text [table_row l1 v1])) =
     [table_row l1 v1]"
  "map snd (findAll ''tr'' (\<lambda>el. True) (report_table caption_text fixture_rows)) = fixture_rows"
  by (simp_all add: findAll_def report_table_def table_row_def fixture_rows_def)

lemma report_row_table_row:
  "report_row report (table_row label val) =
     (if prefix ''Wave Height'' label then report\<lparr>wave_height := Some (str_split val)\<rparr>
      else if prefix ''Dominant Wave Period'' label
        then report\<lparr>wave_dominant_period := Some (str_split val)\<rparr>
      else if prefix ''Average Period'' label
        then report\<lparr>wave_average_period := Some (str_split val)\<rparr>
      else if prefix ''Mean Wave Direction'' label
        then (case re_search deg_re val of
                Some (g # _) \<Rightarrow> report\<lparr>wave_mean_degrees := Some (str_split g)\<rparr>
              | _ \<Rightarrow> report)
      else if prefix ''Water Temperature'' label
        then report\<lparr>water_temperature := Some (str_split val)\<rparr>
      else report)"
  by (simp add: report_row_def cells_table_row re_search_label Let_def)

lemma deg_search: "re_search deg_re ''(from the NNE) some text 38 deg'' = Some [''38 deg'']"
  by (simp add: re_search_def deg_re_def seqs_def lit_def digit_def)

lemma split_examples:
  "str_split ''4.2 ft'' = [''4.2'', ''ft'']" "str_split ''38 deg'' = [''38'', ''deg'']"
  by (simp_all add: str_split_def isspace_def)

lemma page_world_files:
  "dirs (page_world soup) = {''./cache''}" "files (page_world soup) = Map.empty"
  by (simp_all add: page_world_def fresh_world_def)

theorem station_report_no_labels_witness:
  "fst (station_report 46086
          (page_world (report_page ''1450 GMT on 03/01/2020:'' [table_row ''Air Pressure'' ''30.1 in'']))) =
     Inr (Some \<lparr>timestamp = \<lparr>year = 2020, month = 3, day = 1, hour = 14, minute = 50\<rparr>,
                 wave_height = None, wave_dominant_period = None, wave_average_period = None,
                 wave_mean_degrees = None, water_temperature = None\<rparr>)"
  using station_report_no_labels
    [OF get_page_world [of _ _ "report_page ''1450 GMT on 03/01/2020:'' [table_row ''Air Pressure'' ''30.1 in'']"],
     of 46086 "report_table ''1450 GMT on 03/01/2020:'' [table_row ''Air Pressure'' ''30.1 in'']"
        "Tag ''caption'' [(''class'', ''titleDataHeader'')] [Text ''1450 GMT on 03/01/2020:'']"
        "''1450 GMT on 03/01/2020''" "[]"
        "\<lparr>year = 2020, month = 3, day = 1, hour = 14, minute = 50\<rparr>"]
  by (simp add: lxml_page_world find_caption_report_page caption_search_ok strptime_ok
      rows_report_table row_label_table_row known_labels_def page_world_files
      cache_file_eq report_dir_def report_file_def)

text \<open>
  Claim C9. The rows \<open>Wave Height\<close> / \<open>4.2 ft\<close> and \<open>Mean Wave Direction\<close> /
  \<open>(from the NNE) some text 38 deg\<close> give \<open>wave_height = ['4.2', 'ft']\<close> and
  \<open>wave_mean_degrees = ['38', 'deg']\<close>, whatever the timestamp and the caption; a row
  labelled \<open>Air Pressure\<close> leaves every report as it is; and \<open>station_report\<close> on a
  page with that table returns that report.
\<close>

theorem report_fixture:
  "foldl report_row (new_report t)
      (map snd (findAll ''tr'' (\<lambda>el. True) (report_table caption_text fixture_rows))) =
     (new_report t)\<lparr>wave_height := Some [''4.2'', ''ft''],
                     wave_mean_degrees := Some [''38'', ''deg'']\<rparr>
   \<and> report_row report (table_row ''Air Pressure'' ''30.1 in'') = report
   \<and> fst (station_report 46086 (page_world (report_page ''1450 GMT on 03/01/2020:'' fixture_rows))) =
       Inr (Some \<lparr>timestamp = \<lparr>year = 2020, month = 3, day = 1, hour = 14, minute = 50\<rparr>,
                   wave_height = Some [''4.2'', ''ft''], wave_dominant_period = None,
                   wave_average_period = None, wave_mean_degrees = Some [''38'', ''deg''],
                   water_temperature = None\<rparr>)"
proof -
  have rows: "foldl report_row (new_report t') fixture_rows =
      (new_report t')\<lparr>wave_height := Some [''4.2'', ''ft''],
                      wave_mean_degrees := Some [''38'', ''deg'']\<rparr>" for t'
    by (simp add: fixture_rows_def report_row_table_row deg_search split_examples)
  have unmatched: "report_row report (table_row ''Air Pressure'' ''30.1 in'') = report"
    by (simp add: report_row_table_row)
  let ?t = "\<lparr>year = 2020, month = 3, day = 1, hour = 14, minute = 50\<rparr>"
  let ?r = "(new_report ?t)\<lparr>wave_height := Some [''4.2'', ''ft''],
                             wave_mean_degrees := Some [''38'', ''deg'']\<rparr>"
  let ?w1 = "(page_world (report_page ''1450 GMT on 03/01/2020:'' fixture_rows))
        \<lparr>requests := 1,
          files := [cache_file (NOAAClient_url [''station_page.php'']) [(''station'', PInt 46086)]
                      \<mapsto> TextFile ''<html>'']\<rparr>"
  have "timestamp ?r = ?t" by (simp add: new_report_def)
  then have "fst (save_report 46086 ?r ?w1) = Inr (Some ?r)"
    using save_report_ok [of ?w1 46086 ?r]
    by (simp add: page_world_files cache_file_eq report_dir_def report_file_def)
  then have "fst (station_report 46086 (page_world (report_page ''1450 GMT on 03/01/2020:'' fixture_rows))) =
      Inr (Some ?r)"
    by (simp add: station_report_def get_page_world lxml_page_world find_caption_report_page
        caption_search_ok strptime_ok rows_report_table rows)
  then show ?thesis using rows unmatched by (simp add: rows_report_table new_report_def)
qed

section \<open>\<open>station\<close>\<close>

lemma dirname_station_file: "posix_dirname (station_file station_id) = ''stations''"
  using posix_dirname_join [of "str_int station_id @ ''.pickle''" "''stations''"]
    slash_not_in_str_int [of station_id]
  by (simp add: station_file_def)

lemma station_loop_no_anchor:
  assumes "\<forall>(parent, href) \<in> set as. href \<noteq> ''/data/latest_obs/'' @ str_int station_id @ ''.rss''"
  shows "station_loop station_id soup as st w = (Inr st, w)"
  using assms by (induction as) auto

lemma station_loop_no_coordinates:
  assumes "find_first ''div'' (has_id ''stn_metadata'') soup = Some (parent, metadata)"
    and "re_search lat_long_re (get_text metadata) = None"
  shows "station_loop station_id soup as st w = (Inr st, w)"
  using assms by (induction as) auto

lemma str_int_46086: "str_int 46086 = ''46086''"
  by (simp add: str_int_def digits.simps digit_char_def)

lemma anchors_no_metadata_page:
  "anchors no_metadata_page =
     [(Tag ''p'' [] [Tag ''a'' [(''href'', ''/data/latest_obs/46086.rss'')] [Text ''Station 46086'']],
       ''/data/latest_obs/46086.rss'')]"
  by (simp add: anchors_def findAll_def no_metadata_page_def document_def List.map_filter_simps)

lemma no_metadata: "find_first ''div'' (has_id ''stn_metadata'') no_metadata_page = None"
  by (simp add: find_first_def findAll_def no_metadata_page_def document_def)

lemma station_file_missing: "fs_read (station_file 46086) (page_world soup) = Inl FileNotFoundError"
  by (simp add: fs_read_def parent_error_def dirname_station_file is_dir_def page_world_files)

text \<open>
  Claim C4 on a page that has the station's anchor and no metadata block: \<open>find\<close>
  returns \<open>None\<close> and the call of \<open>get_text\<close> on it raises \<open>AttributeError\<close>.
\<close>

theorem station_without_metadata_raises:
  "station 46086 (page_world no_metadata_page) =
     (Inl AttributeError,
      (page_world no_metadata_page)
        \<lparr>requests := 1,
          files := [cache_file (NOAAClient_url [''station_page.php'']) [(''station'', PInt 46086)]
                      \<mapsto> TextFile ''<html>'']\<rparr>)"
  by (simp add: station_def station_file_missing get_page_world lxml_page_world
      anchors_no_metadata_page str_int_46086 no_metadata)


section \<open>\<open>run\<close>\<close>

lemma gather_append:
  "gather (ts @ us) w =
     (case gather ts w of
        (Inl e, w1) \<Rightarrow> (Inl e, w1)
      | (Inr rs, w1) \<Rightarrow>
          (case gather us w1 of
             (Inl e, w2) \<Rightarrow> (Inl e, w2)
           | (Inr rs', w2) \<Rightarrow> (Inr (rs @ rs'), w2)))"
  by (induction ts arbitrary: w) (auto split: prod.splits sum.splits)

lemma gather_length: "gather ts w = (Inr rs, w') \<Longrightarrow> length rs = length ts"
  by (induction ts arbitrary: w rs) (auto split: prod.splits sum.splits)

lemma dict_of_map_of: "dict_of kvs = map_of (rev kvs)"
proof -
  have "foldl (\<lambda>m kv. m(fst kv \<mapsto> snd kv)) m kvs = m ++ map_of (rev kvs)" for m :: "'a \<rightharpoonup> 'b"
    by (induction kvs arbitrary: m) (auto simp: map_add_def fun_eq_iff split: option.splits)
  then show ?thesis by (simp add: dict_of_def)
qed

lemma dom_dict_of_zip:
  assumes "length ks = length vs"
  shows "dom (dict_of (zip ks vs)) = set ks"
proof -
  have "dom (dict_of (zip ks vs)) = set (map fst (zip ks vs))"
    by (simp add: dict_of_map_of dom_map_of_conv_image_fst)
  then show ?thesis using assms by simp
qed

lemma dict_of_zip_mid:
  assumes "length xs = length rx" and "K \<notin> set ys"
  shows "dict_of (zip (xs @ K # ys) (rx @ v # ry)) K = Some v"
proof -
  have "map_of (rev (zip ys ry)) K = None"
    using assms(2) by (auto simp: map_of_eq_None_iff dest: set_zip_leftD)
  then show ?thesis
    using assms(1) by (simp add: dict_of_map_of map_add_def)
qed

lemma station_report_non200:
  assumes "files w (cache_file (NOAAClient_url [''station_page.php'']) [(''station'', PInt K)]) = None"
    and "files w ''./cache'' = None"
    and "cache_file (NOAAClient_url [''station_page.php'']) [(''station'', PInt K)] \<notin> dirs w"
    and "remote w (NOAAClient_url [''station_page.php'']) [(''station'', PInt K)] = Response status body"
    and "status \<noteq> 200"
  shows "station_report K w = (Inr None, w\<lparr>requests := Suc (requests w)\<rparr>)"
  using assms
  by (simp add: station_report_def get_non200 [where body = body] read_missing)

lemma station_report_failure:
  assumes "files w (cache_file (NOAAClient_url [''station_page.php'']) [(''station'', PInt K)]) = None"
    and "files w ''./cache'' = None"
    and "cache_file (NOAAClient_url [''station_page.php'']) [(''station'', PInt K)] \<notin> dirs w"
    and "remote w (NOAAClient_url [''station_page.php'']) [(''station'', PInt K)] = ClientFailure"
  shows "station_report K w = (Inl ClientError, w\<lparr>requests := Suc (requests w)\<rparr>)"
  using assms
  by (simp add: station_report_def get_failure read_missing)

text \<open>
  Claim C1, as the code has it. Let the index list the stations \<open>xs\<close>, \<open>K\<close>, \<open>ys\<close>,
  let the reports of \<open>xs\<close> be gathered, and let the page of \<open>K\<close> not be cached at
  that point. If the service answers \<open>K\<close> with a status other than 200 and the
  reports of \<open>ys\<close> are gathered, \<open>run\<close> returns a dict over all the stations in
  which \<open>K\<close> is \<open>None\<close> and the others have their results. If \<open>session.get\<close>
  raises for \<open>K\<close> (connection failure, timeout), nothing catches it: \<open>run\<close> raises.
\<close>

theorem run_isolates_status_failure_only:
  assumes "station_list w = (Inr (xs @ K # ys), w1)"
    and "gather (map station_report xs) w1 = (Inr rx, w2)"
    and "files w2 (cache_file (NOAAClient_url [''station_page.php'']) [(''station'', PInt K)]) = None"
    and "files w2 ''./cache'' = None"
    and "cache_file (NOAAClient_url [''station_page.php'']) [(''station'', PInt K)] \<notin> dirs w2"
    and "K \<notin> set ys"
  shows "(\<forall>status body ry w3.
            remote w2 (NOAAClient_url [''station_page.php'']) [(''station'', PInt K)] = Response status body
            \<longrightarrow> status \<noteq> 200
            \<longrightarrow> gather (map station_report ys) (w2\<lparr>requests := Suc (requests w2)\<rparr>) = (Inr ry, w3)
            \<longrightarrow> run w = (Inr (dict_of (zip (xs @ K # ys) (rx @ None # ry))), w3)
                \<and> dict_of (zip (xs @ K # ys) (rx @ None # ry)) K = Some None
                \<and> dom (dict_of (zip (xs @ K # ys) (rx @ None # ry))) = set (xs @ K # ys))
       \<and> (remote w2 (NOAAClient_url [''station_page.php'']) [(''station'', PInt K)] = ClientFailure
            \<longrightarrow> run w = (Inl ClientError, w2\<lparr>requests := Suc (requests w2)\<rparr>))"
proof (intro conjI allI impI)
  fix status body ry w3
  assume r: "remote w2 (NOAAClient_url [''station_page.php'']) [(''station'', PInt K)] = Response status body"
    and st: "status \<noteq> 200"
    and g: "gather (map station_report ys) (w2\<lparr>requests := Suc (requests w2)\<rparr>) = (Inr ry, w3)"
  have k: "station_report K w2 = (Inr None, w2\<lparr>requests := Suc (requests w2)\<rparr>)"
    using assms(3-5) r st by (rule station_report_non200)
  have "gather (map station_report (xs @ K # ys)) w1 = (Inr (rx @ None # ry), w3)"
    using assms(2) k g by (simp add: gather_append)
  then show "run w = (Inr (dict_of (zip (xs @ K # ys) (rx @ None # ry))), w3)"
    using assms(1) by (simp add: run_def)
  have len: "length xs = length rx" "length ys = length ry"
    using gather_length [OF assms(2)] gather_length [OF g] by simp_all
  show "dict_of (zip (xs @ K # ys) (rx @ None # ry)) K = Some None"
    using len(1) assms(6) by (rule dict_of_zip_mid)
  have "length (xs @ K # ys) = length (rx @ None # ry)"
    using len by simp
  then show "dom (dict_of (zip (xs @ K # ys) (rx @ None # ry))) = set (xs @ K # ys)"
    by (rule dom_dict_of_zip)
next
  assume r: "remote w2 (NOAAClient_url [''station_page.php'']) [(''station'', PInt K)] = ClientFailure"
  have k: "station_report K w2 = (Inl ClientError, w2\<lparr>requests := Suc (requests w2)\<rparr>)"
    using assms(3-5) r by (rule station_report_failure)
  have "gather (map station_report (xs @ K # ys)) w1 = (Inl ClientError, w2\<lparr>requests := Suc (requests w2)\<rparr>)"
    using assms(2) k by (simp add: gather_append)
  then show "run w = (Inl ClientError, w2\<lparr>requests := Suc (requests w2)\<rparr>)"
    using assms(1) by (simp add: run_def)
qed


text \<open>The cache keys of the index page and of the pages of two stations.\<close>

lemmas sha1_eval = sha1_def sha1_pad_def be64_bytes_def compress_def rotl_def add32_def
  sha1_f_def sha1_k_def zeros.simps schedule.simps hexdigest_def hex32_def hexdigit_def
  encode_def encode_char_def Let_def

lemmas cache_text_eval = cache_key_def cache_text_def NOAAClient_url_def base_url_def
  str_dict_def str_item_def repr_str_def repr_quote_def repr_char_def printable_def

lemma str_int_46087: "str_int 46087 = ''46087''"
  by (simp add: str_int_def digits.simps digit_char_def)

lemma key_index:
  "cache_key (NOAAClient_url [''to_station.shtml'']) [] = ''141acd2c7a337120873786b0f5c8217312396f5c''"
  by (simp add: cache_text_eval sha1_eval)

lemma key_46086:
  "cache_key (NOAAClient_url [''station_page.php'']) [(''station'', PInt 46086)] =
     ''2a8e6c0615492837eada42b133d4a8350b650355''"
  by (simp add: cache_text_eval str_int_46086 sha1_eval)

lemma key_46087:
  "cache_key (NOAAClient_url [''station_page.php'']) [(''station'', PInt 46087)] =
     ''02feee14822b06373798092eaaadf54b12fb1032''"
  by (simp add: cache_text_eval str_int_46087 sha1_eval)

lemma anchors_batch_soup:
  "anchors batch_soup =
     [(batch_soup, ''station_page.php?station=46086''), (batch_soup, ''station_page.php?station=46087'')]"
  by (simp add: anchors_def findAll_def batch_soup_def document_def report_table_def
      fixture_rows_def table_row_def List.map_filter_simps)

lemma href_station_46087: "href_station ''station_page.php?station=46087'' = Some 46087"
  by (simp add: href_station_def re_search_def station_href_re_def seqs_def lit_def digit_def
      py_int_def isdigit_def digit_val_def)

lemma batch_world_simps:
  "files (batch_world failure) = Map.empty" "dirs (batch_world failure) = {''./cache''}"
  "requests (batch_world failure) = 0" "lxml (batch_world failure) html = batch_soup"
  "remote (batch_world failure) url ps =
     (if ps = [(''station'', PInt 46086)] then failure else Response 200 ''<html>'')"
  by (simp_all add: batch_world_def fresh_world_def parser_of_def batch_server_def)

lemma station_list_batch:
  "station_list (batch_world failure) =
     (Inr [46086, 46087],
      (batch_world failure)
        \<lparr>requests := 1,
          files := [cache_file (NOAAClient_url [''to_station.shtml'']) [] \<mapsto> TextFile ''<html>'']\<rparr>)"
proof -
  have "NOAAClient_get (NOAAClient_url [''to_station.shtml'']) [] (batch_world failure) =
     (Inr (Some ''<html>''),
      (batch_world failure)
        \<lparr>requests := 1,
          files := [cache_file (NOAAClient_url [''to_station.shtml'']) [] \<mapsto> TextFile ''<html>'']\<rparr>)"
    by (simp add: get_fetch batch_world_simps cache_file_eq)
  then show ?thesis
    by (simp add: station_list_def BeautifulSoup_def batch_world_simps anchors_batch_soup
        station_list_loop_eq href_station_46086 href_station_46087 List.map_filter_simps)
qed


lemma cache_files_distinct:
  "cache_file (NOAAClient_url [''station_page.php'']) [(''station'', PInt 46086)] \<noteq>
     cache_file (NOAAClient_url [''to_station.shtml'']) []"
  "cache_file (NOAAClient_url [''station_page.php'']) [(''station'', PInt 46087)] \<noteq>
     cache_file (NOAAClient_url [''to_station.shtml'']) []"
  by (simp_all add: cache_file_eq key_index key_46086 key_46087)

lemma station_report_value:
  assumes "NOAAClient_get (NOAAClient_url [''station_page.php'']) [(''station'', PInt station_id)] w
             = (Inr (Some html), w1)"
    and "html \<noteq> []"
    and "find_first ''caption'' (has_class ''titleDataHeader'') (lxml w1 html) = Some (table, caption)"
    and "re_search caption_re (get_text caption) = Some (g # gs)"
    and "strptime g = Inr t"
    and "''reports'' \<in> dirs w1 \<or> files w1 ''reports'' = None"
    and "report_dir station_id \<in> dirs w1 \<or> files w1 (report_dir station_id) = None"
    and "report_file station_id t \<notin> dirs w1"
  shows "fst (station_report station_id w) =
           Inr (Some (foldl report_row (new_report t) (map snd (findAll ''tr'' (\<lambda>el. True) table))))"
proof -
  let ?r = "foldl report_row (new_report t) (map snd (findAll ''tr'' (\<lambda>el. True) table))"
  have "timestamp (report_row r row) = timestamp r" for r row
    by (simp add: report_row_def Let_def split: list.splits option.splits)
  then have "timestamp (foldl report_row r rows) = timestamp r" for r rows
    by (induction rows arbitrary: r) simp_all
  then have "timestamp ?r = t" by (simp add: new_report_def)
  then have "fst (save_report station_id ?r w1) = Inr (Some ?r)"
    using save_report_ok [of w1 station_id ?r] assms(6-8) by simp
  then show ?thesis
    using assms(1-5) by (simp add: station_report_def)
qed

lemma find_caption_batch_soup:
  "find_first ''caption'' (has_class ''titleDataHeader'') batch_soup =
     Some (report_table ''1450 GMT on 03/01/2020:'' fixture_rows,
           Tag ''caption'' [(''class'', ''titleDataHeader'')] [Text ''1450 GMT on 03/01/2020:''])"
  by (simp add: find_first_def findAll_def batch_soup_def document_def report_table_def
      has_class_marker)

lemma fixture_report_rows:
  "foldl report_row
     (new_report \<lparr>year = 2020, month = 3, day = 1, hour = 14, minute = 50\<rparr>) fixture_rows =
   fixture_report"
  by (simp add: fixture_rows_def report_row_table_row deg_search split_examples new_report_def
      fixture_report_def)

lemma station_report_46087_batch:
  assumes "files w = [cache_file (NOAAClient_url [''to_station.shtml'']) [] \<mapsto> TextFile ''<html>'']"
    and "dirs w = {''./cache''}"
    and "lxml w = parser_of batch_soup"
    and "remote w = batch_server failure"
  shows "fst (station_report 46087 w) = Inr (Some fixture_report)"
proof -
  let ?w1 = "w\<lparr>requests := Suc (requests w),
      files := (files w)(cache_file (NOAAClient_url [''station_page.php'']) [(''station'', PInt 46087)]
                  \<mapsto> TextFile ''<html>'')\<rparr>"
  have get: "NOAAClient_get (NOAAClient_url [''station_page.php'']) [(''station'', PInt 46087)] w =
      (Inr (Some ''<html>''), ?w1)"
    by (rule get_fetch)
       (simp_all add: assms batch_server_def cache_files_distinct, simp_all add: cache_file_eq)
  have "fst (station_report 46087 w) =
      Inr (Some (foldl report_row
        (new_report \<lparr>year = 2020, month = 3, day = 1, hour = 14, minute = 50\<rparr>)
        (map snd (findAll ''tr'' (\<lambda>el. True) (report_table ''1450 GMT on 03/01/2020:'' fixture_rows)))))"
    by (rule station_report_value
      [OF get, where caption = "Tag ''caption'' [(''class'', ''titleDataHeader'')] [Text ''1450 GMT on 03/01/2020:'']"
        and g = "''1450 GMT on 03/01/2020''" and gs = "[]"])
      (simp_all add: assms parser_of_def find_caption_batch_soup caption_search_ok strptime_ok
          cache_file_eq report_dir_def report_file_def)
  then show ?thesis by (simp only: rows_report_table fixture_report_rows)
qed

theorem run_isolates_status_failure_only_witness:
  "fst (run (batch_world (Response 503 []))) =
     Inr (dict_of [(46086, None), (46087, Some fixture_report)])
   \<and> fst (run (batch_world ClientFailure)) = Inl ClientError"
proof -
  let ?w1 = "\<lambda>failure. (batch_world failure)
        \<lparr>requests := 1,
          files := [cache_file (NOAAClient_url [''to_station.shtml'']) [] \<mapsto> TextFile ''<html>'']\<rparr>"
  let ?w2 = "\<lambda>failure. (?w1 failure)\<lparr>requests := Suc (requests (?w1 failure))\<rparr>"
  have miss: "files (?w1 failure) (cache_file (NOAAClient_url [''station_page.php'']) [(''station'', PInt 46086)]) = None"
    "files (?w1 failure) ''./cache'' = None"
    "cache_file (NOAAClient_url [''station_page.php'']) [(''station'', PInt 46086)] \<notin> dirs (?w1 failure)"
    for failure
    by (simp_all add: batch_world_simps cache_files_distinct, simp_all add: cache_file_eq)
  have "fst (station_report 46087 (?w2 failure)) = Inr (Some fixture_report)" for failure
    by (rule station_report_46087_batch [where failure = failure])
       (simp_all add: batch_world_def fresh_world_def)
  then have rest: "gather (map station_report [46087]) (?w2 failure) =
      (Inr [Some fixture_report], snd (station_report 46087 (?w2 failure)))" for failure
    by (simp add: split_beta prod_eq_iff split: sum.splits)
  have sl: "station_list (batch_world failure) = (Inr ([] @ 46086 # [46087]), ?w1 failure)" for failure
    by (simp add: station_list_batch)
  have g0: "gather (map station_report []) (?w1 failure) = (Inr [], ?w1 failure)" for failure
    by simp
  have notin: "(46086 :: int) \<notin> set [46087]" by simp
  have r503: "remote (?w1 (Response 503 [])) (NOAAClient_url [''station_page.php''])
      [(''station'', PInt 46086)] = Response 503 []"
    by (simp add: batch_world_simps)
  have rfail: "remote (?w1 ClientFailure) (NOAAClient_url [''station_page.php''])
      [(''station'', PInt 46086)] = ClientFailure"
    by (simp add: batch_world_simps)
  have st: "(503 :: int) \<noteq> 200" by simp
  have "fst (run (batch_world (Response 503 []))) =
      Inr (dict_of (zip ([] @ 46086 # [46087]) ([] @ None # [Some fixture_report])))"
    using run_isolates_status_failure_only
      [OF sl g0 miss notin, THEN conjunct1, rule_format, OF r503 st rest]
    by simp
  moreover have "fst (run (batch_world ClientFailure)) = Inl ClientError"
    using run_isolates_status_failure_only [OF sl g0 miss notin, THEN conjunct2, rule_format, OF rfail]
    by simp
  ultimately show ?thesis by simp
qed

text \<open>
  Claim C1 as stated fails for a connection failure: the exception of \<open>session.get\<close>
  leaves \<open>_get\<close>, \<open>station_report\<close> and \<open>gather\<close>, and \<open>run\<close> raises instead of
  returning the result of the other station.
\<close>

theorem run_aborts_on_connection_failure_counterexample:
  "fst (run (batch_world ClientFailure)) = Inl ClientError"
proof -
  have "station_report 46086
      ((batch_world ClientFailure)
        \<lparr>requests := 1,
          files := [cache_file (NOAAClient_url [''to_station.shtml'']) [] \<mapsto> TextFile ''<html>'']\<rparr>) =
    (Inl ClientError,
     (batch_world ClientFailure)
        \<lparr>requests := 2,
          files := [cache_file (NOAAClient_url [''to_station.shtml'']) [] \<mapsto> TextFile ''<html>'']\<rparr>)"
    using station_report_failure
      [of "(batch_world ClientFailure)
        \<lparr>requests := 1,
          files := [cache_file (NOAAClient_url [''to_station.shtml'']) [] \<mapsto> TextFile ''<html>'']\<rparr>" 46086]
    by (simp add: batch_world_simps cache_files_distinct) (simp add: cache_file_eq)
  then show ?thesis by (simp add: run_def station_list_batch)
qed

section \<open>The text that is hashed\<close>

lemma digit_char_inj:
  assumes "n < 10" and "m < 10" and "digit_char n = digit_char m"
  shows "n = m"
proof -
  have "distinct ''0123456789''" by simp
  then show ?thesis
    using assms nth_eq_iff_index_eq [of "''0123456789''" n m] by (simp add: digit_char_def)
qed

lemma hexdigit_inj:
  assumes "n < 16" and "m < 16" and "hexdigit n = hexdigit m"
  shows "n = m"
proof -
  have "distinct ''0123456789abcdef''" by simp
  then show ?thesis
    using assms nth_eq_iff_index_eq [of "''0123456789abcdef''" n m] by (simp add: hexdigit_def)
qed

lemma digits_nonempty: "digits n \<noteq> []"
  by (subst digits.simps) simp

lemma digits_inj: "digits n = digits m \<Longrightarrow> n = m"
proof (induction n arbitrary: m rule: digits.induct)
  case (1 n)
  show ?case
  proof (cases "n < 10")
    case n: True
    show ?thesis
    proof (cases "m < 10")
      case True
      then show ?thesis
        using n "1.prems" digit_char_inj [of n m]
        by (subst (asm) digits.simps, subst (asm) (2) digits.simps) simp
    next
      case False
      then have "digits m = digits (m div 10) @ [digit_char (m mod 10)]"
        by (subst digits.simps) simp
      moreover have "digits n = [digit_char n]"
        using n by (subst digits.simps) simp
      ultimately show ?thesis
        using "1.prems" digits_nonempty [of "m div 10"] by simp
    qed
  next
    case n: False
    then have dn: "digits n = digits (n div 10) @ [digit_char (n mod 10)]"
      by (subst digits.simps) simp
    show ?thesis
    proof (cases "m < 10")
      case True
      then have "digits m = [digit_char m]"
        by (subst digits.simps) simp
      then show ?thesis
        using "1.prems" dn digits_nonempty [of "n div 10"] by simp
    next
      case False
      then have "digits m = digits (m div 10) @ [digit_char (m mod 10)]"
        by (subst digits.simps) simp
      then have eq: "digits (n div 10) = digits (m div 10)"
        "digit_char (n mod 10) = digit_char (m mod 10)"
        using "1.prems" dn by simp_all
      have "n div 10 = m div 10" using "1.IH" [OF n eq(1)] .
      moreover have "n mod 10 = m mod 10"
        using eq(2) digit_char_inj [of "n mod 10" "m mod 10"] by simp
      ultimately show ?thesis
        by (metis div_mult_mod_eq)
    qed
  qed
qed

lemma hd_digits: "hd (digits n) \<in> set ''0123456789''"
  using digits_set [of n] digits_nonempty [of n] by (cases "digits n") auto

lemma str_int_inj: "str_int i = str_int j \<Longrightarrow> i = j"
proof -
  assume eq: "str_int i = str_int j"
  have neg: "CHR ''-'' # ds \<noteq> digits k" for ds k
    using hd_digits [of k] by (cases "digits k") auto
  show ?thesis
  proof (cases "i < 0")
    case True
    show ?thesis
    proof (cases "j < 0")
      case j: True
      then have "nat (- i) = nat (- j)"
        using True eq digits_inj by (simp add: str_int_def)
      then show ?thesis using True j by simp
    next
      case False
      then show ?thesis using True eq neg by (simp add: str_int_def)
    qed
  next
    case False
    show ?thesis
    proof (cases "j < 0")
      case True
      then show ?thesis using False eq neg [symmetric] by (simp add: str_int_def)
    next
      case j: False
      then have "nat i = nat j"
        using False eq digits_inj by (simp add: str_int_def)
      then show ?thesis using False j by simp
    qed
  qed
qed

lemma hd_str_int: "hd (str_int i) \<in> set ''-0123456789''"
  using hd_digits [of "nat i"] by (auto simp: str_int_def)

lemma repr_quote_cases: "repr_quote s = CHR 0x27 \<or> repr_quote s = CHR 0x22"
  by (simp add: repr_quote_def)

lemma of_char_div_16: "(of_char c :: nat) div 16 < 16"
proof -
  have "(of_char c :: nat) < 256" by (rule nat_of_char_less_256)
  then show ?thesis by presburger
qed

lemma repr_char_nonempty: "repr_char q c \<noteq> []"
  by (simp add: repr_char_def)

lemma repr_char_inj:
  assumes "q = CHR 0x27 \<or> q = CHR 0x22"
    and "repr_char q c @ x = repr_char q c' @ y"
  shows "c = c' \<and> x = y"
proof -
  have hex: "c = c'"
    if "hexdigit (of_char c div 16) = hexdigit (of_char c' div 16)"
      and "hexdigit (of_char c mod 16) = hexdigit (of_char c' mod 16)"
  proof -
    have "(of_char c :: nat) div 16 = of_char c' div 16"
      using that(1) hexdigit_inj of_char_div_16 by blast
    moreover have "(of_char c :: nat) mod 16 = of_char c' mod 16"
      using that(2) hexdigit_inj [of "of_char c mod 16" "of_char c' mod 16"] by simp
    ultimately have "(of_char c :: nat) = of_char c'"
      by (metis div_mult_mod_eq)
    then show ?thesis by simp
  qed
  show ?thesis
    using assms hex by (auto simp: repr_char_def split: if_splits)
qed

lemma concat_repr_char_inj:
  assumes "q = CHR 0x27 \<or> q = CHR 0x22"
  shows "concat (map (repr_char q) s) = concat (map (repr_char q) s') \<Longrightarrow> s = s'"
proof (induction s arbitrary: s')
  case Nil
  then show ?case using repr_char_nonempty by (cases s') auto
next
  case (Cons c s)
  show ?case
  proof (cases s')
    case Nil
    then show ?thesis using Cons.prems repr_char_nonempty by auto
  next
    case (Cons c' t)
    then have "repr_char q c @ concat (map (repr_char q) s) =
               repr_char q c' @ concat (map (repr_char q) t)"
      using Cons.prems by simp
    from repr_char_inj [OF assms this] show ?thesis
      using Cons Cons.IH by simp
  qed
qed

lemma repr_str_inj: "repr_str s = repr_str s' \<Longrightarrow> s = s'"
proof -
  assume eq: "repr_str s = repr_str s'"
  then have q: "repr_quote s = repr_quote s'"
    by (simp add: repr_str_def Let_def)
  then have "concat (map (repr_char (repr_quote s)) s) = concat (map (repr_char (repr_quote s)) s')"
    using eq by (simp add: repr_str_def Let_def)
  then show ?thesis
    using concat_repr_char_inj [OF repr_quote_cases] by blast
qed

lemma repr_val_inj: "repr_val v = repr_val v' \<Longrightarrow> v = v'"
proof (cases v; cases v')
  fix i s
  have "str_int i \<noteq> repr_str s"
    using hd_str_int [of i] repr_quote_cases [of s] by (auto simp: repr_str_def Let_def)
  then show "v = PInt i \<Longrightarrow> v' = PStr s \<Longrightarrow> repr_val v = repr_val v' \<Longrightarrow> v = v'"
    and "v = PStr s \<Longrightarrow> v' = PInt i \<Longrightarrow> repr_val v = repr_val v' \<Longrightarrow> v = v'"
    by auto
qed (auto dest: str_int_inj repr_str_inj)

lemma join_str_Cons: "join_str sep (y # ys) = y @ concat (map (\<lambda>z. sep @ z) ys)"
  by (induction ys arbitrary: y) simp_all

lemma join_str_mid:
  "\<exists>A B. \<forall>y. join_str sep (xs @ y # ys) = A @ y @ B"
proof (cases xs)
  case Nil
  then show ?thesis by (metis append_Nil join_str_Cons)
next
  case (Cons x xs')
  have "join_str sep ((x # xs') @ y # ys) =
      (x @ concat (map (\<lambda>z. sep @ z) xs') @ sep) @ y @ concat (map (\<lambda>z. sep @ z) ys)" for y
    by (simp add: join_str_Cons)
  then show ?thesis using Cons by blast
qed

lemma encode_char_nonempty: "encode_char c \<noteq> []"
  by (simp add: encode_char_def Let_def)

lemma encode_char_inj:
  assumes "encode_char c @ x = encode_char c' @ y"
  shows "c = c' \<and> x = y"
proof -
  let ?n = "of_char c :: nat" and ?m = "of_char c' :: nat"
  have "?n = ?m \<and> x = y"
  proof (cases "?n < 128"; cases "?m < 128")
    assume "\<not> ?n < 128" and "\<not> ?m < 128"
    then have "?n div 64 = ?m div 64" and "?n mod 64 = ?m mod 64" and "x = y"
      using assms by (simp_all add: encode_char_def Let_def)
    then show ?thesis by (metis div_mult_mod_eq)
  qed (use assms in \<open>auto simp: encode_char_def Let_def\<close>)
  then show ?thesis by simp
qed

lemma encode_inj: "encode s = encode s' \<Longrightarrow> s = s'"
proof (induction s arbitrary: s')
  case Nil
  then show ?case using encode_char_nonempty by (cases s') (auto simp: encode_def)
next
  case (Cons c s)
  show ?case
  proof (cases s')
    case Nil
    then show ?thesis using Cons.prems encode_char_nonempty by (auto simp: encode_def)
  next
    case (Cons c' t)
    then have "encode_char c @ encode s = encode_char c' @ encode t"
      using Cons.prems by (simp add: encode_def)
    from encode_char_inj [OF this] show ?thesis
      using Cons Cons.IH by simp
  qed
qed

text \<open>
  Claim C2, as the code has it. The signature is the SHA-1 of the text
  \<^verbatim>\<open>f"{url}.{params}"\<close>, whose parameters stand in the order they were supplied.
  The bytes that are hashed differ when the URL differs, and when the value of one
  parameter differs.
\<close>

theorem cache_text_separates:
  "cache_key url ps = hexdigest (sha1 (encode (url @ ''.'' @ str_dict ps)))
   \<and> (url \<noteq> url' \<longrightarrow> encode (cache_text url ps) \<noteq> encode (cache_text url' ps))
   \<and> (v \<noteq> v' \<longrightarrow>
        encode (cache_text url (pre @ (k, v) # post)) \<noteq>
        encode (cache_text url (pre @ (k, v') # post)))"
proof (intro conjI impI)
  show "cache_key url ps = hexdigest (sha1 (encode (url @ ''.'' @ str_dict ps)))"
    by (simp add: cache_key_def cache_text_def)
  show "encode (cache_text url ps) \<noteq> encode (cache_text url' ps)" if "url \<noteq> url'"
    using that by (auto simp: cache_text_def dest: encode_inj)
  show "encode (cache_text url (pre @ (k, v) # post)) \<noteq>
        encode (cache_text url (pre @ (k, v') # post))" if "v \<noteq> v'"
  proof
    assume "encode (cache_text url (pre @ (k, v) # post)) =
            encode (cache_text url (pre @ (k, v') # post))"
    then have eq: "join_str '', '' (map str_item pre @ str_item (k, v) # map str_item post) =
                   join_str '', '' (map str_item pre @ str_item (k, v') # map str_item post)"
      by (auto simp: cache_text_def str_dict_def dest: encode_inj)
    obtain A B where "\<forall>y. join_str '', '' (map str_item pre @ y # map str_item post) = A @ y @ B"
      using join_str_mid by blast
    then have "str_item (k, v) = str_item (k, v')"
      using eq by simp
    then have "repr_val v = repr_val v'"
      by (simp add: str_item_def)
    then show False using that repr_val_inj by blast
  qed
qed

theorem cache_text_separates_witness:
  "encode (cache_text ''u'' [(''a'', PInt 1)]) \<noteq> encode (cache_text ''v'' [(''a'', PInt 1)])
   \<and> encode (cache_text ''u'' [(''a'', PInt 1), (''b'', PInt 2)]) \<noteq>
       encode (cache_text ''u'' [(''a'', PInt 1), (''b'', PInt 3)])"
  using cache_text_separates [of "''u''" "[(''a'', PInt 1)]" "''v''" "PInt 2" "PInt 3" "[(''a'', PInt 1)]" "''b''" "[]"]
  by simp

lemma str_int_1_2: "str_int 1 = ''1''" "str_int 2 = ''2''"
  by (simp_all add: str_int_def digits.simps digit_char_def)

lemma key_ab:
  "cache_key ''u'' [(''a'', PInt 1), (''b'', PInt 2)] = ''653bdf89cf6d7ee25a6dcd9c3506637b6a89e898''"
  by (simp add: cache_text_eval str_int_1_2 sha1_eval)

lemma key_ba:
  "cache_key ''u'' [(''b'', PInt 2), (''a'', PInt 1)] = ''6d516571d94eebfff45b44e5ec30610de74f1208''"
  by (simp add: cache_text_eval str_int_1_2 sha1_eval)

text \<open>
  Claim C2 as stated fails: the same two parameters in the other order have another
  signature.
\<close>

theorem cache_key_order_counterexample:
  "cache_key ''u'' [(''a'', PInt 1), (''b'', PInt 2)] \<noteq>
   cache_key ''u'' [(''b'', PInt 2), (''a'', PInt 1)]"
  by (simp add: key_ab key_ba)

end
